theory Spec2Isabelle
  imports Main "HOL-Library.Word"
begin

unbundle bit_operations_syntax

section \<open>nf\_tables hardware offload: net/netfilter/nf\_tables\_offload.c\<close>

text \<open>
  A shallow embedding of \<^verbatim>\<open>net/netfilter/nf_tables_offload.c\<close> and of the declarations of
  \<^verbatim>\<open>include/net/netfilter/nf_tables_offload.h\<close>. C structs are records, enums are
  datatypes, fixed-width integers are words, pointers are addresses into an explicit
  store, and every function that changes kernel state takes the state and returns it.
  A member whose name several structs share (\<^verbatim>\<open>match\<close>, \<^verbatim>\<open>rule\<close>, \<^verbatim>\<open>command\<close>,
  \<^verbatim>\<open>key\<close>, \<^verbatim>\<open>mask\<close>) keeps the name in one record and carries a prefix in the others.
\<close>

subsection \<open>Basic types\<close>

type_synonym u8 = "8 word"
type_synonym u16 = "16 word"
type_synonym u32 = "32 word"

text \<open>An address; \<open>NULL\<close> is address 0.\<close>

type_synonym addr = nat

definition NULL :: addr where
  "NULL = 0"

text \<open>
  Untyped storage reached through a pointer (\<^verbatim>\<open>const void *data\<close>, the bytes of a key
  or of a mask): the byte found at each offset from the pointer.
\<close>

type_synonym bytes = "nat \<Rightarrow> u8"

text \<open>
  \<^verbatim>\<open>memcpy\<close> into a 16-bit object writes its object representation, which depends on
  the byte order of the host; the order is a parameter of the embedding.
\<close>

datatype byte_order = Little_endian | Big_endian

definition u16_of_bytes :: "byte_order \<Rightarrow> u8 \<Rightarrow> u8 \<Rightarrow> u16" where
  "u16_of_bytes bo b0 b1 =
     (case bo of
        Little_endian \<Rightarrow> ucast b0 OR push_bit 8 (ucast b1)
      | Big_endian \<Rightarrow> ucast b1 OR push_bit 8 (ucast b0))"

definition bytes_of_u16 :: "byte_order \<Rightarrow> u16 \<Rightarrow> u8 list" where
  "bytes_of_u16 bo w =
     (case bo of
        Little_endian \<Rightarrow> [ucast w, ucast (drop_bit 8 w)]
      | Big_endian \<Rightarrow> [ucast (drop_bit 8 w), ucast w])"

text \<open>Error numbers of \<^verbatim>\<open>errno.h\<close>; C \<^verbatim>\<open>int\<close> results are never added, only compared.\<close>

definition ENOMEM :: int where
  "ENOMEM = 12"

definition EOPNOTSUPP :: int where
  "EOPNOTSUPP = 95"

subsection \<open>Offload context and dependency tracking\<close>

datatype nft_offload_dep_type =
  NFT_OFFLOAD_DEP_UNSPEC | NFT_OFFLOAD_DEP_NETWORK | NFT_OFFLOAD_DEP_TRANSPORT

record nft_offload_reg =
  key :: u32
  len :: u32
  base_offset :: u32
  offset :: u32
  mask :: bytes

record nft_offload_dep =
  type :: nft_offload_dep_type
  l3num :: u16
  protonum :: u8

text \<open>\<^verbatim>\<open>regs\<close> is an array indexed by register number.\<close>

record nft_offload_ctx =
  dep :: nft_offload_dep
  num_actions :: u32
  regs :: "nat \<Rightarrow> nft_offload_reg"

definition nft_offload_set_dependency ::
  "nft_offload_ctx \<Rightarrow> nft_offload_dep_type \<Rightarrow> nft_offload_ctx" where
  "nft_offload_set_dependency ctx ty = ctx\<lparr>dep := (dep ctx)\<lparr>type := ty\<rparr>\<rparr>"

text \<open>
  \<^verbatim>\<open>nft_offload_update_dependency(ctx, data, len)\<close>. The result pairs the new context
  with whether \<^verbatim>\<open>WARN_ON\<close> fired. The copy always takes \<^verbatim>\<open>sizeof(__u16)\<close> or
  \<^verbatim>\<open>sizeof(__u8)\<close> bytes from \<^verbatim>\<open>data\<close>, whatever \<^verbatim>\<open>len\<close> says.
\<close>

definition nft_offload_update_dependency ::
  "byte_order \<Rightarrow> nft_offload_ctx \<Rightarrow> bytes \<Rightarrow> u32 \<Rightarrow> nft_offload_ctx \<times> bool" where
  "nft_offload_update_dependency bo ctx data n =
     (let (d, warned) =
        (case type (dep ctx) of
           NFT_OFFLOAD_DEP_NETWORK \<Rightarrow>
             ((dep ctx)\<lparr>l3num := u16_of_bytes bo (data 0) (data 1)\<rparr>, n \<noteq> 2)
         | NFT_OFFLOAD_DEP_TRANSPORT \<Rightarrow>
             ((dep ctx)\<lparr>protonum := data 0\<rparr>, n \<noteq> 1)
         | NFT_OFFLOAD_DEP_UNSPEC \<Rightarrow> (dep ctx, False))
      in (ctx\<lparr>dep := d\<lparr>type := NFT_OFFLOAD_DEP_UNSPEC\<rparr>\<rparr>, warned))"

subsection \<open>Flow rules and the kernel heap\<close>

text \<open>
  \<^verbatim>\<open>struct nft_flow_match\<close>: the dissector, the key and the mask, each an opaque block
  of storage embedded in the \<^verbatim>\<open>struct nft_flow_rule\<close>.
\<close>

record nft_flow_match =
  dissector :: bytes
  match_key :: bytes
  match_mask :: bytes

text \<open>
  The three pointers of \<^verbatim>\<open>struct flow_match\<close> point into the \<^verbatim>\<open>match\<close> member of a
  \<^verbatim>\<open>struct nft_flow_rule\<close>: a reference names the owning object and the member.
\<close>

datatype match_ref = Null_ref | Dissector_of addr | Mask_of addr | Key_of addr

record flow_match =
  fm_dissector :: match_ref
  fm_mask :: match_ref
  fm_key :: match_ref

text \<open>
  \<^verbatim>\<open>struct flow_action\<close>: \<^verbatim>\<open>num_entries\<close> is the capacity fixed at allocation; each
  entry is an opaque block of storage.
\<close>

record flow_action =
  num_entries :: u32
  entries :: "bytes list"

record flow_rule =
  match :: flow_match
  action :: flow_action

record nft_flow_rule =
  proto :: u16
  flow_match :: nft_flow_match
  rule :: addr

datatype kobj = Obj_nft_flow_rule nft_flow_rule | Obj_flow_rule flow_rule

text \<open>
  The heap: the live objects by address, the highest address handed out so far, and the
  outcomes of the coming \<^verbatim>\<open>GFP_KERNEL\<close> allocations (\<open>True\<close>: memory is found); once
  the outcomes are used up, allocation fails.
\<close>

record kheap =
  objs :: "addr \<rightharpoonup> kobj"
  brk :: addr
  gfp :: "bool list"

text \<open>\<^verbatim>\<open>kzalloc\<close> of an object whose zero-filled content is \<open>z\<close>: a fresh address, or \<open>NULL\<close>.\<close>

definition kzalloc :: "kobj \<Rightarrow> kheap \<Rightarrow> addr \<times> kheap" where
  "kzalloc z h =
     (case gfp h of
        [] \<Rightarrow> (NULL, h)
      | ok # rest \<Rightarrow>
          if ok then (Suc (brk h), h\<lparr>objs := (objs h)(Suc (brk h) \<mapsto> z), brk := Suc (brk h), gfp := rest\<rparr>)
          else (NULL, h\<lparr>gfp := rest\<rparr>))"

text \<open>\<^verbatim>\<open>kfree\<close>: nothing for \<open>NULL\<close>; freeing what is not live has no defined result.\<close>

definition kfree :: "addr \<Rightarrow> kheap \<Rightarrow> kheap option" where
  "kfree p h =
     (if p = NULL then Some h
      else if p \<in> dom (objs h) then Some (h\<lparr>objs := (objs h)(p := None)\<rparr>)
      else None)"

definition zero_bytes :: bytes where
  "zero_bytes = (\<lambda>_. 0)"

definition zero_nft_flow_rule :: nft_flow_rule where
  "zero_nft_flow_rule =
     \<lparr>proto = 0,
      flow_match = \<lparr>dissector = zero_bytes, match_key = zero_bytes, match_mask = zero_bytes\<rparr>,
      rule = NULL\<rparr>"

text \<open>
  Modelled from the spec: \<^verbatim>\<open>flow_rule_alloc\<close> is declared in \<^verbatim>\<open>net/flow_offload.h\<close> and
  defined outside these sources. It allocates the match pointers and an action list
  sized for \<^verbatim>\<open>num_actions\<close> entries in one zero-filled object and records the capacity.
\<close>

definition flow_rule_alloc :: "u32 \<Rightarrow> kheap \<Rightarrow> addr \<times> kheap" where
  "flow_rule_alloc n h =
     kzalloc (Obj_flow_rule
       \<lparr>match = \<lparr>fm_dissector = Null_ref, fm_mask = Null_ref, fm_key = Null_ref\<rparr>,
        action = \<lparr>num_entries = n, entries = replicate (unat n) zero_bytes\<rparr>\<rparr>) h"

text \<open>
  Typed reads: \<open>None\<close> when the pointer is null or does not hold a live object of the type.
\<close>

definition read_nft_flow_rule :: "kheap \<Rightarrow> addr \<Rightarrow> nft_flow_rule option" where
  "read_nft_flow_rule h p =
     (if p = NULL then None
      else (case objs h p of Some (Obj_nft_flow_rule f) \<Rightarrow> Some f | _ \<Rightarrow> None))"

definition read_flow_rule :: "kheap \<Rightarrow> addr \<Rightarrow> flow_rule option" where
  "read_flow_rule h p =
     (if p = NULL then None
      else (case objs h p of Some (Obj_flow_rule r) \<Rightarrow> Some r | _ \<Rightarrow> None))"

definition nft_flow_rule_alloc :: "u32 \<Rightarrow> kheap \<Rightarrow> (addr \<times> kheap) option" where
  "nft_flow_rule_alloc n h =
     (case kzalloc (Obj_nft_flow_rule zero_nft_flow_rule) h of
        (flow, h1) \<Rightarrow>
          if flow = NULL then Some (NULL, h1)
          else (case flow_rule_alloc n h1 of
             (r, h2) \<Rightarrow>
               if r = NULL then
                 (case kfree flow h2 of None \<Rightarrow> None | Some h3 \<Rightarrow> Some (NULL, h3))
               else
                 (case (read_nft_flow_rule h2 flow, read_flow_rule h2 r) of
                    (Some f, Some fr) \<Rightarrow>
                      Some (flow,
                        h2\<lparr>objs := (objs h2)
                          (flow \<mapsto> Obj_nft_flow_rule (f\<lparr>rule := r\<rparr>),
                           r \<mapsto> Obj_flow_rule (fr\<lparr>match :=
                             \<lparr>fm_dissector = Dissector_of flow, fm_mask = Mask_of flow,
                              fm_key = Key_of flow\<rparr>\<rparr>))\<rparr>)
                  | _ \<Rightarrow> None)))"

definition nft_flow_rule_destroy :: "addr \<Rightarrow> kheap \<Rightarrow> kheap option" where
  "nft_flow_rule_destroy flow h =
     (case read_nft_flow_rule h flow of
        None \<Rightarrow> None
      | Some f \<Rightarrow> (case kfree (rule f) h of None \<Rightarrow> None | Some h1 \<Rightarrow> kfree flow h1))"

subsection \<open>Expressions and the flow rule compiler\<close>

definition NFT_OFFLOAD_F_ACTION :: u32 where
  "NFT_OFFLOAD_F_ACTION = push_bit 0 1"

text \<open>
  \<^verbatim>\<open>struct nft_expr_ops\<close>, as far as this file reads it: the flags and the
  \<^verbatim>\<open>offload\<close> entry point (\<open>None\<close> for a null function pointer). The entry point is
  given the context, the flow rule under construction (its match storage and its
  action list) and the private data of the expression. It returns its \<^verbatim>\<open>int\<close> result
  with what it may write: the context, the match storage and the entries of the action
  list. The capacity of the list and the pointers of the flow rule are not its to change.
\<close>

type_synonym offload_fn =
  "nft_offload_ctx \<Rightarrow> nft_flow_match \<times> flow_action \<Rightarrow> bytes
     \<Rightarrow> int \<times> nft_offload_ctx \<times> nft_flow_match \<times> bytes list"

record nft_expr_ops =
  offload_flags :: u32
  offload :: "offload_fn option"

text \<open>\<^verbatim>\<open>struct nft_expr\<close>: the \<^verbatim>\<open>ops\<close> pointer (\<open>None\<close> when null) and the private data.\<close>

record nft_expr =
  ops :: "nft_expr_ops option"
  data :: bytes

text \<open>
  A rule's expressions, from \<^verbatim>\<open>nft_expr_first\<close> up to \<^verbatim>\<open>nft_expr_last\<close>, are a list.
  Both loops of \<^verbatim>\<open>nft_flow_rule_create\<close> stop at the end of the list or at the first
  expression whose \<^verbatim>\<open>ops\<close> is null. The counter \<^verbatim>\<open>num_actions\<close> is a 32-bit
  \<^verbatim>\<open>int\<close> that \<^verbatim>\<open>flow_rule_alloc\<close> takes as \<^verbatim>\<open>unsigned int\<close>: a 32-bit word, whose
  addition wraps.
\<close>

fun count_actions :: "nft_expr list \<Rightarrow> u32 \<Rightarrow> u32" where
  "count_actions [] n = n"
| "count_actions (e # es) n =
     (case ops e of
        None \<Rightarrow> n
      | Some o' \<Rightarrow>
          count_actions es
            (if offload_flags o' AND NFT_OFFLOAD_F_ACTION \<noteq> 0 then n + 1 else n))"

fun offload_exprs ::
  "nft_expr list \<Rightarrow> nft_offload_ctx \<Rightarrow> nft_flow_match \<times> flow_action
     \<Rightarrow> int + nft_offload_ctx \<times> nft_flow_match \<times> flow_action" where
  "offload_exprs [] ctx fl = Inr (ctx, fl)"
| "offload_exprs (e # es) ctx fl =
     (case ops e of
        None \<Rightarrow> Inr (ctx, fl)
      | Some o' \<Rightarrow>
          (case offload o' of
             None \<Rightarrow> Inl (- EOPNOTSUPP)
           | Some f \<Rightarrow>
               (case f ctx fl (data e) of
                  (err, ctx', m, ents) \<Rightarrow>
                    if err < 0 then Inl err
                    else offload_exprs es ctx' (m, (snd fl)\<lparr>entries := ents\<rparr>))))"

definition zero_reg :: nft_offload_reg where
  "zero_reg = \<lparr>key = 0, len = 0, base_offset = 0, offset = 0, mask = zero_bytes\<rparr>"

definition ctx_init :: nft_offload_ctx where
  "ctx_init =
     \<lparr>dep = \<lparr>type = NFT_OFFLOAD_DEP_UNSPEC, l3num = 0, protonum = 0\<rparr>,
      num_actions = 0,
      regs = (\<lambda>_. zero_reg)\<rparr>"

text \<open>
  \<^verbatim>\<open>nft_flow_rule_create\<close>. The result is \<open>Inl err\<close> for \<^verbatim>\<open>ERR_PTR(err)\<close> and
  \<open>Inr flow\<close> for a flow rule, with the heap; \<open>None\<close> is a fault on the heap.
\<close>

definition nft_flow_rule_create ::
  "nft_expr list \<Rightarrow> kheap \<Rightarrow> ((int + addr) \<times> kheap) option" where
  "nft_flow_rule_create es h =
     (case nft_flow_rule_alloc (count_actions es 0) h of
        None \<Rightarrow> None
      | Some (flow, h1) \<Rightarrow>
          if flow = NULL then Some (Inl (- ENOMEM), h1)
          else
            (case read_nft_flow_rule h1 flow of
               None \<Rightarrow> None
             | Some f \<Rightarrow>
                 (case read_flow_rule h1 (rule f) of
                    None \<Rightarrow> None
                  | Some fr \<Rightarrow>
                      (case offload_exprs es ctx_init (flow_match f, action fr) of
                         Inl err \<Rightarrow>
                           (case nft_flow_rule_destroy flow h1 of
                              None \<Rightarrow> None
                            | Some h2 \<Rightarrow> Some (Inl err, h2))
                       | Inr (ctx, m, a) \<Rightarrow>
                           Some (Inr flow,
                             h1\<lparr>objs := (objs h1)
                               (flow \<mapsto> Obj_nft_flow_rule
                                  (f\<lparr>flow_match := m, proto := l3num (dep ctx)\<rparr>),
                                rule f \<mapsto> Obj_flow_rule (fr\<lparr>action := a\<rparr>))\<rparr>)))))"

subsection \<open>Offload blocks, devices and chains\<close>

datatype tc_setup_type = TC_SETUP_BLOCK | TC_SETUP_CLSFLOWER

text \<open>
  \<^verbatim>\<open>enum flow_block_command\<close>; the last constructor stands for any other value of the
  C type, which \<^verbatim>\<open>nft_block_setup\<close> answers in its \<^verbatim>\<open>default\<close> branch.
\<close>

datatype flow_block_command = FLOW_BLOCK_BIND | FLOW_BLOCK_UNBIND | FLOW_BLOCK_other nat

datatype flow_block_binder_type =
  FLOW_BLOCK_BINDER_TYPE_UNSPEC
| FLOW_BLOCK_BINDER_TYPE_CLSACT_INGRESS
| FLOW_BLOCK_BINDER_TYPE_CLSACT_EGRESS

datatype flow_cls_command = FLOW_CLS_REPLACE | FLOW_CLS_DESTROY | FLOW_CLS_STATS

text \<open>\<^verbatim>\<open>struct flow_cls_offload\<close> with its \<^verbatim>\<open>common\<close> member flattened.\<close>

record flow_cls_offload =
  common_protocol :: u16
  command :: flow_cls_command
  cookie :: addr
  cls_rule :: addr

text \<open>
  A registered callback, \<^verbatim>\<open>struct flow_block_cb\<close>. The state of the drivers and of the
  hardware is of an arbitrary type \<open>'hw\<close>. \<^verbatim>\<open>cb(type, type_data, cb_priv)\<close> reads the
  command, may read the heap through the command's rule pointer, and returns its
  \<^verbatim>\<open>int\<close> result and the new driver state; \<^verbatim>\<open>release\<close> is run when the entry is freed.
\<close>

record 'hw flow_block_cb =
  cb :: "tc_setup_type \<Rightarrow> flow_cls_offload \<Rightarrow> addr \<Rightarrow> kheap \<Rightarrow> 'hw \<Rightarrow> int \<times> 'hw"
  cb_priv :: addr
  release :: "(addr \<Rightarrow> 'hw \<Rightarrow> 'hw) option"

text \<open>
  \<^verbatim>\<open>struct flow_block_offload\<close>. \<^verbatim>\<open>block\<close> is the address of the chain whose
  \<^verbatim>\<open>flow_block\<close> is named; \<open>block_cb_list\<close> is the callback list found behind that
  pointer, which a driver may edit through it (on unbind a driver moves its entry from
  there to \<^verbatim>\<open>cb_list\<close>).
\<close>

record 'hw flow_block_offload =
  bo_command :: flow_block_command
  binder_type :: flow_block_binder_type
  net :: addr
  block :: addr
  block_cb_list :: "'hw flow_block_cb list"
  cb_list :: "'hw flow_block_cb list"

text \<open>
  \<^verbatim>\<open>struct net_device\<close>: the name, the namespace, and \<^verbatim>\<open>netdev_ops->ndo_setup_tc\<close>
  (\<open>None\<close> when the device has no such entry point). The entry point is given the setup
  type and the block descriptor, and returns its result, the descriptor as it leaves
  it, and the new driver state.
\<close>

record 'hw net_device =
  name :: string
  dev_net :: addr
  ndo_setup_tc ::
    "(tc_setup_type \<Rightarrow> 'hw flow_block_offload \<Rightarrow> 'hw
        \<Rightarrow> int \<times> 'hw flow_block_offload \<times> 'hw) option"

text \<open>
  A chain. \<^verbatim>\<open>nft_base_chain(chain)\<close> is the enclosing \<^verbatim>\<open>struct nft_base_chain\<close>; its
  members \<^verbatim>\<open>ops.dev\<close> (\<open>None\<close> when null), \<^verbatim>\<open>dev_name\<close> and \<^verbatim>\<open>flow_block.cb_list\<close> are
  kept with the chain and mean something when the chain is a base chain.
\<close>

record 'hw nft_chain =
  flags :: u8
  ops_dev :: "'hw net_device option"
  dev_name :: string
  flow_block :: "'hw flow_block_cb list"

text \<open>
  Modelled from the spec: the flag bits, the message types, the family, the netlink
  flags and the verdict below are declared in headers that are not among these sources;
  they carry the values of the kernel's headers.
\<close>

definition NFT_BASE_CHAIN :: u8 where
  "NFT_BASE_CHAIN = 1"

definition NFT_CHAIN_HW_OFFLOAD :: u8 where
  "NFT_CHAIN_HW_OFFLOAD = 2"

definition NFPROTO_NETDEV :: u8 where
  "NFPROTO_NETDEV = 5"

definition NFT_MSG_NEWCHAIN :: int where
  "NFT_MSG_NEWCHAIN = 3"

definition NFT_MSG_DELCHAIN :: int where
  "NFT_MSG_DELCHAIN = 5"

definition NFT_MSG_NEWRULE :: int where
  "NFT_MSG_NEWRULE = 6"

definition NFT_MSG_DELRULE :: int where
  "NFT_MSG_DELRULE = 8"

definition NLM_F_REPLACE :: u16 where
  "NLM_F_REPLACE = 0x100"

definition NLM_F_APPEND :: u16 where
  "NLM_F_APPEND = 0x800"

definition NF_DROP :: int where
  "NF_DROP = 0"

definition NF_ACCEPT :: int where
  "NF_ACCEPT = 1"

definition ETH_P_ALL :: u16 where
  "ETH_P_ALL = 0x0003"

definition IFNAMSIZ :: nat where
  "IFNAMSIZ = 16"

text \<open>
  Modelled from the spec: \<^verbatim>\<open>nft_is_base_chain\<close> is declared in \<^verbatim>\<open>nf_tables.h\<close>, not
  among these sources; a base chain carries the flag \<^verbatim>\<open>NFT_BASE_CHAIN\<close>.
\<close>

definition nft_is_base_chain :: "'hw nft_chain \<Rightarrow> bool" where
  "nft_is_base_chain c = (flags c AND NFT_BASE_CHAIN \<noteq> 0)"

text \<open>
  The kernel state this file works on: the heap of flow rules, the chains by address,
  and the state of the drivers.
\<close>

record 'hw world =
  heap :: kheap
  chains :: "addr \<Rightarrow> 'hw nft_chain"
  hw :: 'hw

text \<open>
  \<^verbatim>\<open>struct nft_trans\<close>, as far as this file reads it: the message type, the context's
  family, netlink flags and chain, and the members behind \<^verbatim>\<open>nft_trans_rule\<close>,
  \<^verbatim>\<open>nft_trans_flow_rule\<close> and \<^verbatim>\<open>nft_trans_chain_policy\<close>. The policy member is a
  \<^verbatim>\<open>u8\<close> (declared in \<^verbatim>\<open>nf_tables.h\<close>, not among these sources): an \<^verbatim>\<open>int\<close> assigned
  to it is kept modulo 256, so the \<open>-1\<close> that stands for a policy left unset is held
  as 255.
\<close>

record nft_trans =
  msg_type :: int
  ctx_family :: u8
  ctx_flags :: u16
  ctx_chain :: addr
  trans_rule :: addr
  trans_flow_rule :: addr
  trans_chain_policy :: u8

subsection \<open>Dispatching a rule to the callbacks\<close>

fun nft_setup_cb_call ::
  "'hw flow_block_cb list \<Rightarrow> tc_setup_type \<Rightarrow> flow_cls_offload \<Rightarrow> kheap \<Rightarrow> 'hw
     \<Rightarrow> int \<times> 'hw" where
  "nft_setup_cb_call [] ty td h s = (0, s)"
| "nft_setup_cb_call (block_cb # rest) ty td h s =
     (case cb block_cb ty td (cb_priv block_cb) h s of
        (err, s') \<Rightarrow> if err < 0 then (err, s') else nft_setup_cb_call rest ty td h s')"

text \<open>
  The command \<^verbatim>\<open>nft_flow_offload_rule\<close> builds: the protocol is that of the record's
  flow rule, or \<^verbatim>\<open>ETH_P_ALL\<close> without one; the cookie is the rule's address; the rule
  pointer is the flow rule's, or null. \<open>None\<close> when \<^verbatim>\<open>flow\<close> is neither null nor a
  live flow rule.
\<close>

definition cls_flow_init :: "nft_trans \<Rightarrow> flow_cls_command \<Rightarrow> kheap \<Rightarrow> flow_cls_offload option" where
  "cls_flow_init tr cmd h =
     (let flow = trans_flow_rule tr
      in if flow \<noteq> NULL then
           (case read_nft_flow_rule h flow of
              None \<Rightarrow> None
            | Some f \<Rightarrow>
                Some \<lparr>common_protocol = proto f, command = cmd,
                      cookie = trans_rule tr, cls_rule = rule f\<rparr>)
         else
           Some \<lparr>common_protocol = ETH_P_ALL, command = cmd,
                 cookie = trans_rule tr, cls_rule = NULL\<rparr>)"

definition nft_flow_offload_rule ::
  "nft_trans \<Rightarrow> flow_cls_command \<Rightarrow> 'hw world \<Rightarrow> (int \<times> 'hw world) option" where
  "nft_flow_offload_rule tr cmd w =
     (let chain = chains w (ctx_chain tr)
      in if \<not> nft_is_base_chain chain then Some (- EOPNOTSUPP, w)
         else
           (case cls_flow_init tr cmd (heap w) of
              None \<Rightarrow> None
            | Some cls_flow \<Rightarrow>
                (case nft_setup_cb_call (flow_block chain) TC_SETUP_CLSFLOWER cls_flow
                        (heap w) (hw w) of
                   (err, s') \<Rightarrow> Some (err, w\<lparr>hw := s'\<rparr>))))"

subsection \<open>Binding and unbinding a chain's block\<close>

definition set_flow_block ::
  "addr \<Rightarrow> 'hw flow_block_cb list \<Rightarrow> 'hw world \<Rightarrow> 'hw world" where
  "set_flow_block c l w = w\<lparr>chains := (chains w)(c := (chains w c)\<lparr>flow_block := l\<rparr>)\<rparr>"

text \<open>\<^verbatim>\<open>list_splice(list, head)\<close> puts the entries of \<open>list\<close> at the front of \<open>head\<close>.\<close>

definition nft_flow_offload_bind ::
  "'hw flow_block_offload \<Rightarrow> addr \<Rightarrow> 'hw world \<Rightarrow> int \<times> 'hw world" where
  "nft_flow_offload_bind bo basechain w =
     (0, set_flow_block basechain (cb_list bo @ flow_block (chains w basechain)) w)"

text \<open>
  Modelled from the spec: \<^verbatim>\<open>flow_block_cb_free\<close> is defined outside these sources; it
  runs the entry's \<^verbatim>\<open>release\<close> on its private data, when there is one, and frees the entry.
\<close>

definition flow_block_cb_free :: "'hw flow_block_cb \<Rightarrow> 'hw \<Rightarrow> 'hw" where
  "flow_block_cb_free block_cb s =
     (case release block_cb of None \<Rightarrow> s | Some r \<Rightarrow> r (cb_priv block_cb) s)"

definition nft_flow_offload_unbind ::
  "'hw flow_block_offload \<Rightarrow> addr \<Rightarrow> 'hw world \<Rightarrow> int \<times> 'hw world" where
  "nft_flow_offload_unbind bo basechain w =
     (0, w\<lparr>hw := fold flow_block_cb_free (cb_list bo) (hw w)\<rparr>)"

definition nft_block_setup ::
  "addr \<Rightarrow> 'hw flow_block_offload \<Rightarrow> flow_block_command \<Rightarrow> 'hw world \<Rightarrow> int \<times> 'hw world" where
  "nft_block_setup basechain bo cmd w =
     (case cmd of
        FLOW_BLOCK_BIND \<Rightarrow> nft_flow_offload_bind bo basechain w
      | FLOW_BLOCK_UNBIND \<Rightarrow> nft_flow_offload_unbind bo basechain w
      | FLOW_BLOCK_other _ \<Rightarrow> (- EOPNOTSUPP, w))"

text \<open>The descriptor each of the three block commands starts from.\<close>

definition bo_init ::
  "addr \<Rightarrow> 'hw net_device \<Rightarrow> flow_block_command \<Rightarrow> 'hw world \<Rightarrow> 'hw flow_block_offload" where
  "bo_init chain dev cmd w =
     \<lparr>bo_command = cmd,
      binder_type = FLOW_BLOCK_BINDER_TYPE_CLSACT_INGRESS,
      net = dev_net dev,
      block = chain,
      block_cb_list = flow_block (chains w chain),
      cb_list = []\<rparr>"

text \<open>
  What a driver did to the descriptor is taken over: the driver state, and the chain's
  callback list as the driver left it behind the \<^verbatim>\<open>block\<close> pointer.
\<close>

definition driver_returned ::
  "addr \<Rightarrow> 'hw flow_block_offload \<Rightarrow> 'hw \<Rightarrow> 'hw world \<Rightarrow> 'hw world" where
  "driver_returned chain bo s w = set_flow_block chain (block_cb_list bo) (w\<lparr>hw := s\<rparr>)"

definition nft_block_offload_cmd ::
  "addr \<Rightarrow> 'hw net_device
     \<Rightarrow> (tc_setup_type \<Rightarrow> 'hw flow_block_offload \<Rightarrow> 'hw \<Rightarrow> int \<times> 'hw flow_block_offload \<times> 'hw)
     \<Rightarrow> flow_block_command \<Rightarrow> 'hw world \<Rightarrow> int \<times> 'hw world" where
  "nft_block_offload_cmd chain dev setup_tc cmd w =
     (case setup_tc TC_SETUP_BLOCK (bo_init chain dev cmd w) (hw w) of
        (err, bo, s) \<Rightarrow>
          if err < 0 then (err, driver_returned chain bo s w)
          else nft_block_setup chain bo cmd (driver_returned chain bo s w))"

text \<open>
  The callback handed to the late-join path, \<^verbatim>\<open>flow_indr_block_bind_cb_t\<close>: given the
  device's name, its private data, the setup type and the descriptor.
\<close>

type_synonym 'hw flow_indr_block_bind_cb =
  "string \<Rightarrow> addr \<Rightarrow> tc_setup_type \<Rightarrow> 'hw flow_block_offload \<Rightarrow> 'hw
     \<Rightarrow> 'hw flow_block_offload \<times> 'hw"

text \<open>
  \<^verbatim>\<open>nft_indr_block_ing_cmd\<close>; the chain is an address, \<open>NULL\<close> for none. The result of
  \<^verbatim>\<open>nft_block_setup\<close> is dropped, as in the source.
\<close>

definition nft_indr_block_ing_cmd ::
  "'hw net_device \<Rightarrow> addr \<Rightarrow> 'hw flow_indr_block_bind_cb \<Rightarrow> addr \<Rightarrow> flow_block_command
     \<Rightarrow> 'hw world \<Rightarrow> 'hw world" where
  "nft_indr_block_ing_cmd dev chain f priv cmd w =
     (if chain = NULL then w
      else
        (case f (name dev) priv TC_SETUP_BLOCK (bo_init chain dev cmd w) (hw w) of
           (bo, s) \<Rightarrow> snd (nft_block_setup chain bo cmd (driver_returned chain bo s w))))"

text \<open>
  Modelled from the spec: \<^verbatim>\<open>flow_indr_block_call\<close> is defined outside these sources; it
  hands the descriptor to the driver-agnostic callbacks registered for the device, each
  of which may add itself to the descriptor's callback list. It is a parameter here.
\<close>

type_synonym 'hw flow_indr_block_call =
  "'hw net_device \<Rightarrow> 'hw flow_block_offload \<Rightarrow> flow_block_command \<Rightarrow> 'hw
     \<Rightarrow> 'hw flow_block_offload \<times> 'hw"

definition nft_indr_block_offload_cmd ::
  "'hw flow_indr_block_call \<Rightarrow> addr \<Rightarrow> 'hw net_device \<Rightarrow> flow_block_command
     \<Rightarrow> 'hw world \<Rightarrow> int \<times> 'hw world" where
  "nft_indr_block_offload_cmd indr chain dev cmd w =
     (case indr dev (bo_init chain dev cmd w) cmd (hw w) of
        (bo, s) \<Rightarrow>
          if cb_list bo = [] then (- EOPNOTSUPP, driver_returned chain bo s w)
          else nft_block_setup chain bo cmd (driver_returned chain bo s w))"

text \<open>
  \<^verbatim>\<open>nft_flow_offload_chain\<close>. In both comparisons of the policy check the \<^verbatim>\<open>u8\<close>
  policy is promoted to \<^verbatim>\<open>int\<close>, a value from 0 to 255.
\<close>

definition nft_flow_offload_chain ::
  "'hw flow_indr_block_call \<Rightarrow> nft_trans \<Rightarrow> flow_block_command \<Rightarrow> 'hw world
     \<Rightarrow> int \<times> 'hw world" where
  "nft_flow_offload_chain indr tr cmd w =
     (let chain = chains w (ctx_chain tr)
      in if \<not> nft_is_base_chain chain then (- EOPNOTSUPP, w)
         else
           (case ops_dev chain of
              None \<Rightarrow> (- EOPNOTSUPP, w)
            | Some dev \<Rightarrow>
                if cmd = FLOW_BLOCK_BIND \<and> uint (trans_chain_policy tr) \<noteq> - 1
                   \<and> uint (trans_chain_policy tr) \<noteq> NF_ACCEPT
                then (- EOPNOTSUPP, w)
                else
                  (case ndo_setup_tc dev of
                     Some setup_tc \<Rightarrow> nft_block_offload_cmd (ctx_chain tr) dev setup_tc cmd w
                   | None \<Rightarrow> nft_indr_block_offload_cmd indr (ctx_chain tr) dev cmd w)))"

subsection \<open>The commit walk\<close>

text \<open>
  What the body of the loop does with one record: \<^verbatim>\<open>continue\<close>, leave the
  \<^verbatim>\<open>switch\<close> with a value of \<^verbatim>\<open>err\<close>, or \<^verbatim>\<open>return\<close> from the function.
\<close>

datatype 'w step = Continue | Break int 'w | Return int 'w

definition hw_offload_chain :: "nft_trans \<Rightarrow> 'hw world \<Rightarrow> bool" where
  "hw_offload_chain tr w =
     (flags (chains w (ctx_chain tr)) AND NFT_CHAIN_HW_OFFLOAD \<noteq> 0)"

text \<open>
  One pass through the loop body for a record; \<open>err\<close> is the value the variable holds
  on entry. \<open>None\<close> is a fault: a pointer that is followed and holds nothing live.
\<close>

definition commit_trans ::
  "'hw flow_indr_block_call \<Rightarrow> nft_trans \<Rightarrow> int \<Rightarrow> 'hw world \<Rightarrow> 'hw world step option" where
  "commit_trans indr tr err w =
     (if ctx_family tr \<noteq> NFPROTO_NETDEV then Some Continue
      else if msg_type tr = NFT_MSG_NEWCHAIN then
        (if \<not> hw_offload_chain tr w then Some Continue
         else (case nft_flow_offload_chain indr tr FLOW_BLOCK_BIND w of
                 (e, w') \<Rightarrow> Some (Break e w')))
      else if msg_type tr = NFT_MSG_DELCHAIN then
        (if \<not> hw_offload_chain tr w then Some Continue
         else (case nft_flow_offload_chain indr tr FLOW_BLOCK_UNBIND w of
                 (e, w') \<Rightarrow> Some (Break e w')))
      else if msg_type tr = NFT_MSG_NEWRULE then
        (if \<not> hw_offload_chain tr w then Some Continue
         else if ctx_flags tr AND NLM_F_REPLACE \<noteq> 0
                 \<or> \<not> (ctx_flags tr AND NLM_F_APPEND \<noteq> 0)
         then Some (Return (- EOPNOTSUPP) w)
         else
           (case nft_flow_offload_rule tr FLOW_CLS_REPLACE w of
              None \<Rightarrow> None
            | Some (e, w') \<Rightarrow>
                (case nft_flow_rule_destroy (trans_flow_rule tr) (heap w') of
                   None \<Rightarrow> None
                 | Some h \<Rightarrow> Some (Break e (w'\<lparr>heap := h\<rparr>)))))
      else if msg_type tr = NFT_MSG_DELRULE then
        (if \<not> hw_offload_chain tr w then Some Continue
         else (case nft_flow_offload_rule tr FLOW_CLS_DESTROY w of
                 None \<Rightarrow> None
               | Some (e, w') \<Rightarrow> Some (Break e w')))
      else Some (Break err w))"

fun commit_loop ::
  "'hw flow_indr_block_call \<Rightarrow> nft_trans list \<Rightarrow> int \<Rightarrow> 'hw world
     \<Rightarrow> (int \<times> 'hw world) option" where
  "commit_loop indr [] err w = Some (err, w)"
| "commit_loop indr (tr # rest) err w =
     (case commit_trans indr tr err w of
        None \<Rightarrow> None
      | Some Continue \<Rightarrow> commit_loop indr rest err w
      | Some (Return e w') \<Rightarrow> Some (e, w')
      | Some (Break e w') \<Rightarrow> if e \<noteq> 0 then Some (e, w') else commit_loop indr rest e w')"

text \<open>\<^verbatim>\<open>struct net\<close>, as far as this file reads it.\<close>

record nft_table =
  family :: u8
  table_chains :: "addr list"

record netns =
  commit_list :: "nft_trans list"
  tables :: "nft_table list"

definition nft_flow_rule_offload_commit ::
  "'hw flow_indr_block_call \<Rightarrow> netns \<Rightarrow> 'hw world \<Rightarrow> (int \<times> 'hw world) option" where
  "nft_flow_rule_offload_commit indr n w = commit_loop indr (commit_list n) 0 w"

subsection \<open>Late join\<close>

text \<open>\<^verbatim>\<open>!strncmp(a, b, n)\<close> on strings without embedded NUL.\<close>

definition strncmp_eq :: "string \<Rightarrow> string \<Rightarrow> nat \<Rightarrow> bool" where
  "strncmp_eq a b n = (take n a = take n b)"

text \<open>
  The inner loop over a table's chains: \<open>Some w'\<close> when a chain matched and the function
  returned with state \<open>w'\<close>, \<open>None\<close> when the loop ran to its end.
\<close>

fun ing_cmd_chains ::
  "'hw net_device \<Rightarrow> 'hw flow_indr_block_bind_cb \<Rightarrow> addr \<Rightarrow> flow_block_command
     \<Rightarrow> addr list \<Rightarrow> 'hw world \<Rightarrow> 'hw world option" where
  "ing_cmd_chains dev f priv cmd [] w = None"
| "ing_cmd_chains dev f priv cmd (c # cs) w =
     (if nft_is_base_chain (chains w c) \<and> strncmp_eq (dev_name (chains w c)) (name dev) IFNAMSIZ
      then Some (nft_indr_block_ing_cmd dev c f priv cmd w)
      else ing_cmd_chains dev f priv cmd cs w)"

fun ing_cmd_tables ::
  "'hw net_device \<Rightarrow> 'hw flow_indr_block_bind_cb \<Rightarrow> addr \<Rightarrow> flow_block_command
     \<Rightarrow> nft_table list \<Rightarrow> 'hw world \<Rightarrow> 'hw world" where
  "ing_cmd_tables dev f priv cmd [] w = w"
| "ing_cmd_tables dev f priv cmd (t # ts) w =
     (if family t \<noteq> NFPROTO_NETDEV then ing_cmd_tables dev f priv cmd ts w
      else (case ing_cmd_chains dev f priv cmd (table_chains t) w of
              Some w' \<Rightarrow> w'
            | None \<Rightarrow> ing_cmd_tables dev f priv cmd ts w))"

definition nft_indr_block_get_and_ing_cmd ::
  "netns \<Rightarrow> 'hw net_device \<Rightarrow> 'hw flow_indr_block_bind_cb \<Rightarrow> addr \<Rightarrow> flow_block_command
     \<Rightarrow> 'hw world \<Rightarrow> 'hw world" where
  "nft_indr_block_get_and_ing_cmd n dev f priv cmd w =
     ing_cmd_tables dev f priv cmd (tables n) w"

section \<open>Notions used in the statements\<close>

text \<open>
  Invoking the callbacks of a list one after the other, each on the driver state the
  one before left: whether every one of them succeeds, and the state after the last.
\<close>

fun all_succeed ::
  "'hw flow_block_cb list \<Rightarrow> tc_setup_type \<Rightarrow> flow_cls_offload \<Rightarrow> kheap \<Rightarrow> 'hw \<Rightarrow> bool" where
  "all_succeed [] ty td h s = True"
| "all_succeed (c # cs) ty td h s =
     (0 \<le> fst (cb c ty td (cb_priv c) h s)
      \<and> all_succeed cs ty td h (snd (cb c ty td (cb_priv c) h s)))"

definition run_all ::
  "'hw flow_block_cb list \<Rightarrow> tc_setup_type \<Rightarrow> flow_cls_offload \<Rightarrow> kheap \<Rightarrow> 'hw \<Rightarrow> 'hw" where
  "run_all cs ty td h s = fold (\<lambda>c s. snd (cb c ty td (cb_priv c) h s)) cs s"

text \<open>What an expression's descriptor declares.\<close>

definition action_bearing :: "nft_expr \<Rightarrow> bool" where
  "action_bearing e =
     (case ops e of None \<Rightarrow> False | Some o' \<Rightarrow> offload_flags o' AND NFT_OFFLOAD_F_ACTION \<noteq> 0)"

definition offloadable :: "nft_expr \<Rightarrow> bool" where
  "offloadable e = (case ops e of None \<Rightarrow> False | Some o' \<Rightarrow> offload o' \<noteq> None)"

text \<open>
  Every \<^verbatim>\<open>offload\<close> call made for the expressions of a list, one after the other from
  a given context and flow rule, returns a result that is not negative.
\<close>

fun calls_succeed ::
  "nft_expr list \<Rightarrow> nft_offload_ctx \<Rightarrow> nft_flow_match \<times> flow_action \<Rightarrow> bool" where
  "calls_succeed [] ctx fl = True"
| "calls_succeed (e # es) ctx fl =
     (case ops e of
        None \<Rightarrow> True
      | Some o' \<Rightarrow>
          (case offload o' of
             None \<Rightarrow> True
           | Some f \<Rightarrow>
               (case f ctx fl (data e) of
                  (err, ctx', m, ents) \<Rightarrow>
                    0 \<le> err \<and> calls_succeed es ctx' (m, (snd fl)\<lparr>entries := ents\<rparr>))))"

text \<open>The match storage and action list of a flow rule as allocation leaves them.\<close>

definition fresh_flow :: "u32 \<Rightarrow> nft_flow_match \<times> flow_action" where
  "fresh_flow n =
     (flow_match zero_nft_flow_rule, \<lparr>num_entries = n, entries = replicate (unat n) zero_bytes\<rparr>)"

text \<open>Both allocations of \<^verbatim>\<open>nft_flow_rule_alloc\<close> find memory.\<close>

definition alloc_succeeds :: "kheap \<Rightarrow> bool" where
  "alloc_succeeds h = (take 2 (gfp h) = [True, True])"

text \<open>No live object lies above the highest address handed out.\<close>

definition heap_wf :: "kheap \<Rightarrow> bool" where
  "heap_wf h = (\<forall>a \<in> dom (objs h). a \<le> brk h)"

text \<open>The insertion mode the walk rejects: a replace, or anything that is not an append.\<close>

definition replace_or_not_append :: "nft_trans \<Rightarrow> bool" where
  "replace_or_not_append t =
     (ctx_flags t AND NLM_F_REPLACE \<noteq> 0 \<or> ctx_flags t AND NLM_F_APPEND = 0)"

text \<open>
  Sample inputs. The driver state is a log of the private data of the callbacks that
  ran: a callback appends its own and returns a fixed result.
\<close>

definition tracing_cb :: "int \<Rightarrow> addr \<Rightarrow> nat list flow_block_cb" where
  "tracing_cb e p = \<lparr>cb = (\<lambda>ty td priv h s. (e, s @ [priv])), cb_priv = p, release = None\<rparr>"

definition empty_heap :: kheap where
  "empty_heap = \<lparr>objs = Map.empty, brk = 0, gfp = []\<rparr>"

definition sample_chain :: "u8 \<Rightarrow> string \<Rightarrow> 'hw flow_block_cb list \<Rightarrow> 'hw nft_chain" where
  "sample_chain fl nm cbs = \<lparr>flags = fl, ops_dev = None, dev_name = nm, flow_block = cbs\<rparr>"

text \<open>A record; the policy is given as the \<^verbatim>\<open>int\<close> that is assigned to the \<^verbatim>\<open>u8\<close> member.\<close>

definition sample_trans :: "int \<Rightarrow> u8 \<Rightarrow> u16 \<Rightarrow> addr \<Rightarrow> addr \<Rightarrow> int \<Rightarrow> nft_trans" where
  "sample_trans ty fam fl c flow pol =
     \<lparr>msg_type = ty, ctx_family = fam, ctx_flags = fl, ctx_chain = c,
      trans_rule = 7, trans_flow_rule = flow, trans_chain_policy = word_of_int pol\<rparr>"

definition sample_dev :: "int \<Rightarrow> nat list flow_block_cb list \<Rightarrow> nat list net_device" where
  "sample_dev e cbs =
     \<lparr>name = ''eth0'', dev_net = 0,
      ndo_setup_tc = Some (\<lambda>ty bo s. (e, bo\<lparr>cb_list := cbs\<rparr>, s @ [100]))\<rparr>"

definition sample_world :: "kheap \<Rightarrow> nat list nft_chain \<Rightarrow> nat list world" where
  "sample_world h c = \<lparr>heap = h, chains = (\<lambda>_. c), hw = []\<rparr>"

text \<open>No driver-agnostic callback is registered: the descriptor comes back as it went.\<close>

definition no_indr :: "'hw flow_indr_block_call" where
  "no_indr dev bo cmd s = (bo, s)"

text \<open>A heap holding one compiled flow rule at address 5, with its \<^verbatim>\<open>flow_rule\<close> at 6.\<close>

definition sample_heap :: kheap where
  "sample_heap =
     \<lparr>objs =
        [5 \<mapsto> Obj_nft_flow_rule (zero_nft_flow_rule\<lparr>rule := 6\<rparr>),
         6 \<mapsto> Obj_flow_rule
           \<lparr>match = \<lparr>fm_dissector = Dissector_of 5, fm_mask = Mask_of 5, fm_key = Key_of 5\<rparr>,
            action = \<lparr>num_entries = 0, entries = []\<rparr>\<rparr>],
      brk = 6, gfp = []\<rparr>"

text \<open>
  Sample expressions: the entry point returns a fixed result and leaves the context
  and the flow rule as they are; the flag word is given.
\<close>

definition sample_expr :: "u32 \<Rightarrow> int \<Rightarrow> nft_expr" where
  "sample_expr fl e =
     \<lparr>ops = Some \<lparr>offload_flags = fl,
                   offload = Some (\<lambda>ctx flow d. (e, ctx, fst flow, entries (snd flow)))\<rparr>,
      data = zero_bytes\<rparr>"

definition sample_expr_no_offload :: nft_expr where
  "sample_expr_no_offload = \<lparr>ops = Some \<lparr>offload_flags = 0, offload = None\<rparr>, data = zero_bytes\<rparr>"

text \<open>A device without \<^verbatim>\<open>ndo_setup_tc\<close>, and an indirect call that registers callbacks.\<close>

definition sample_indr_dev :: "nat list net_device" where
  "sample_indr_dev = \<lparr>name = ''vxlan0'', dev_net = 0, ndo_setup_tc = None\<rparr>"

definition sample_indr :: "nat list flow_block_cb list \<Rightarrow> nat list flow_indr_block_call" where
  "sample_indr cbs dev bo cmd s = (bo\<lparr>cb_list := cbs\<rparr>, s @ [200])"

text \<open>
  A late-join callback that registers one tracing callback carrying its private data,
  and a namespace whose device-family table holds the chains at addresses 1 and 2.
\<close>

definition sample_late_cb :: "nat list flow_indr_block_bind_cb" where
  "sample_late_cb nm priv ty bo s = (bo\<lparr>cb_list := [tracing_cb 0 priv]\<rparr>, s @ [300])"

definition sample_netns :: netns where
  "sample_netns =
     \<lparr>commit_list = [],
      tables = [\<lparr>family = 2, table_chains = [2]\<rparr>,
                \<lparr>family = NFPROTO_NETDEV, table_chains = [1, 2]\<rparr>]\<rparr>"

section \<open>Properties\<close>

subsection \<open>Dependency tracking\<close>

lemma bytes_of_u16_of_bytes: "bytes_of_u16 bo (u16_of_bytes bo b0 b1) = [b0, b1]"
proof (cases bo)
  case Little_endian
  have "(ucast (ucast b0 OR push_bit 8 (ucast b1 :: u16) :: u16) :: u8) = b0"
    by (rule bit_word_eqI) (auto simp: bit_simps dest: bit_imp_le_length)
  moreover have "(ucast (drop_bit 8 (ucast b0 OR push_bit 8 (ucast b1 :: u16) :: u16)) :: u8) = b1"
    by (rule bit_word_eqI) (auto simp: bit_simps dest: bit_imp_le_length)
  ultimately show ?thesis
    using Little_endian by (simp add: bytes_of_u16_def u16_of_bytes_def)
next
  case Big_endian
  have "(ucast (ucast b1 OR push_bit 8 (ucast b0 :: u16) :: u16) :: u8) = b1"
    by (rule bit_word_eqI) (auto simp: bit_simps dest: bit_imp_le_length)
  moreover have "(ucast (drop_bit 8 (ucast b1 OR push_bit 8 (ucast b0 :: u16) :: u16)) :: u8) = b0"
    by (rule bit_word_eqI) (auto simp: bit_simps dest: bit_imp_le_length)
  ultimately show ?thesis
    using Big_endian by (simp add: bytes_of_u16_def u16_of_bytes_def)
qed

text \<open>
  Claim C6. \<^verbatim>\<open>nft_offload_update_dependency\<close> leaves the pending kind at
  \<^verbatim>\<open>NFT_OFFLOAD_DEP_UNSPEC\<close> in every case and touches nothing outside \<^verbatim>\<open>dep\<close>. With
  a network dependency pending, the two bytes of \<^verbatim>\<open>l3num\<close> are the first two bytes at
  \<^verbatim>\<open>data\<close> and \<^verbatim>\<open>protonum\<close> is kept; with a transport dependency pending,
  \<^verbatim>\<open>protonum\<close> is the first byte at \<^verbatim>\<open>data\<close> and \<^verbatim>\<open>l3num\<close> is kept; the warning
  fires exactly when \<^verbatim>\<open>len\<close> is not that width; with nothing pending the context is
  unchanged. A second call right after the first, on any data and length, changes
  nothing and does not warn.
\<close>

theorem update_dependency_single_shot:
  assumes "nft_offload_update_dependency bo ctx buf n = (ctx', warned)"
  shows "type (dep ctx') = NFT_OFFLOAD_DEP_UNSPEC
    \<and> num_actions ctx' = num_actions ctx \<and> regs ctx' = regs ctx
    \<and> (type (dep ctx) = NFT_OFFLOAD_DEP_NETWORK \<longrightarrow>
         bytes_of_u16 bo (l3num (dep ctx')) = [buf 0, buf 1]
         \<and> protonum (dep ctx') = protonum (dep ctx) \<and> (warned \<longleftrightarrow> n \<noteq> 2))
    \<and> (type (dep ctx) = NFT_OFFLOAD_DEP_TRANSPORT \<longrightarrow>
         protonum (dep ctx') = buf 0
         \<and> l3num (dep ctx') = l3num (dep ctx) \<and> (warned \<longleftrightarrow> n \<noteq> 1))
    \<and> (type (dep ctx) = NFT_OFFLOAD_DEP_UNSPEC \<longrightarrow> ctx' = ctx \<and> \<not> warned)
    \<and> nft_offload_update_dependency bo ctx' buf2 n2 = (ctx', False)"
  using assms
  by (cases "type (dep ctx)")
     (auto simp: nft_offload_update_dependency_def bytes_of_u16_of_bytes)

text \<open>
  The theorem at a network dependency armed by \<^verbatim>\<open>nft_offload_set_dependency\<close>, on a
  big-endian host, with a length of 4: the two bytes are captured, the warning fires,
  and the second call finds nothing pending.
\<close>

theorem update_dependency_single_shot_witness:
  "nft_offload_update_dependency Big_endian
     (nft_offload_set_dependency ctx_init NFT_OFFLOAD_DEP_NETWORK)
     (\<lambda>i. if i = 0 then 8 else 0) 4
   = (ctx_init\<lparr>dep := \<lparr>type = NFT_OFFLOAD_DEP_UNSPEC, l3num = 0x0800, protonum = 0\<rparr>\<rparr>, True)
   \<and> bytes_of_u16 Big_endian 0x0800 = [8, 0]
   \<and> nft_offload_update_dependency Big_endian
     (ctx_init\<lparr>dep := \<lparr>type = NFT_OFFLOAD_DEP_UNSPEC, l3num = 0x0800, protonum = 0\<rparr>\<rparr>)
     (\<lambda>i. 0xff) 2
   = (ctx_init\<lparr>dep := \<lparr>type = NFT_OFFLOAD_DEP_UNSPEC, l3num = 0x0800, protonum = 0\<rparr>\<rparr>, False)"
proof -
  have run: "nft_offload_update_dependency Big_endian
     (nft_offload_set_dependency ctx_init NFT_OFFLOAD_DEP_NETWORK)
     (\<lambda>i. if i = 0 then 8 else 0) 4
   = (ctx_init\<lparr>dep := \<lparr>type = NFT_OFFLOAD_DEP_UNSPEC, l3num = 0x0800, protonum = 0\<rparr>\<rparr>, True)"
    by (simp add: nft_offload_update_dependency_def nft_offload_set_dependency_def
        ctx_init_def u16_of_bytes_def)
  have armed: "type (dep (nft_offload_set_dependency ctx_init NFT_OFFLOAD_DEP_NETWORK))
      = NFT_OFFLOAD_DEP_NETWORK"
    by (simp add: nft_offload_set_dependency_def)
  from update_dependency_single_shot [OF run, of "\<lambda>i. 0xff" 2] run armed
  show ?thesis by (simp add: ctx_init_def)
qed

subsection \<open>Dispatch of a rule command\<close>

lemma nft_setup_cb_call_all_succeed:
  "all_succeed cs ty td h s \<Longrightarrow> nft_setup_cb_call cs ty td h s = (0, run_all cs ty td h s)"
  by (induction cs arbitrary: s) (auto simp: run_all_def split: prod.splits)

lemma nft_setup_cb_call_first_failure:
  "all_succeed pre ty td h s \<Longrightarrow>
   fst (cb c ty td (cb_priv c) h (run_all pre ty td h s)) < 0 \<Longrightarrow>
   nft_setup_cb_call (pre @ c # post) ty td h s = cb c ty td (cb_priv c) h (run_all pre ty td h s)"
  by (induction pre arbitrary: s) (auto simp: run_all_def split: prod.splits)

text \<open>
  Claim C8. A per-rule command goes to the callbacks of the record's chain's
  \<^verbatim>\<open>flow_block\<close> in the order of that list, each on the driver state the one before
  left. When the callbacks ahead of one all succeed and that one returns a negative
  result, the dispatch returns that result with the driver state as that callback left
  it, whatever follows it in the list: the later callbacks do not run. When all
  succeed, the dispatch returns 0 after running every one of them.
\<close>

theorem rule_dispatch_in_list_order:
  assumes "nft_is_base_chain (chains w (ctx_chain tr))"
    and "cls_flow_init tr cmd (heap w) = Some td"
  shows "(\<forall>pre c post.
           flow_block (chains w (ctx_chain tr)) = pre @ c # post
           \<and> all_succeed pre TC_SETUP_CLSFLOWER td (heap w) (hw w)
           \<and> fst (cb c TC_SETUP_CLSFLOWER td (cb_priv c) (heap w)
                   (run_all pre TC_SETUP_CLSFLOWER td (heap w) (hw w))) < 0
           \<longrightarrow> nft_flow_offload_rule tr cmd w =
                 Some (fst (cb c TC_SETUP_CLSFLOWER td (cb_priv c) (heap w)
                         (run_all pre TC_SETUP_CLSFLOWER td (heap w) (hw w))),
                       w\<lparr>hw := snd (cb c TC_SETUP_CLSFLOWER td (cb_priv c) (heap w)
                         (run_all pre TC_SETUP_CLSFLOWER td (heap w) (hw w)))\<rparr>))
       \<and> (all_succeed (flow_block (chains w (ctx_chain tr))) TC_SETUP_CLSFLOWER td (heap w) (hw w)
           \<longrightarrow> nft_flow_offload_rule tr cmd w =
                 Some (0, w\<lparr>hw := run_all (flow_block (chains w (ctx_chain tr)))
                                  TC_SETUP_CLSFLOWER td (heap w) (hw w)\<rparr>))"
  using assms
  by (auto simp: nft_flow_offload_rule_def nft_setup_cb_call_all_succeed
      nft_setup_cb_call_first_failure split: prod.splits)

text \<open>
  Three callbacks, the second of which fails with \<open>-5\<close>: the log of the callbacks that
  ran is \<open>[1, 2]\<close>. Two callbacks that succeed: both ran, in list order.
\<close>

theorem rule_dispatch_in_list_order_witness:
  "nft_flow_offload_rule (sample_trans NFT_MSG_DELRULE NFPROTO_NETDEV 0 1 NULL 0) FLOW_CLS_DESTROY
     \<lparr>heap = empty_heap,
      chains = (\<lambda>_. sample_chain 3 ''eth0'' [tracing_cb 0 1, tracing_cb (- 5) 2, tracing_cb 0 3]),
      hw = []\<rparr>
   = Some (- 5,
     \<lparr>heap = empty_heap,
      chains = (\<lambda>_. sample_chain 3 ''eth0'' [tracing_cb 0 1, tracing_cb (- 5) 2, tracing_cb 0 3]),
      hw = [1, 2]\<rparr>)
   \<and> nft_flow_offload_rule (sample_trans NFT_MSG_DELRULE NFPROTO_NETDEV 0 1 NULL 0) FLOW_CLS_DESTROY
     \<lparr>heap = empty_heap,
      chains = (\<lambda>_. sample_chain 3 ''eth0'' [tracing_cb 0 1, tracing_cb 0 2]),
      hw = []\<rparr>
   = Some (0,
     \<lparr>heap = empty_heap,
      chains = (\<lambda>_. sample_chain 3 ''eth0'' [tracing_cb 0 1, tracing_cb 0 2]),
      hw = [1, 2]\<rparr>)"
proof -
  let ?tr = "sample_trans NFT_MSG_DELRULE NFPROTO_NETDEV 0 1 NULL 0"
  let ?td = "\<lparr>common_protocol = ETH_P_ALL, command = FLOW_CLS_DESTROY, cookie = 7, cls_rule = NULL\<rparr>"
  let ?w1 = "\<lparr>heap = empty_heap,
      chains = (\<lambda>_. sample_chain 3 ''eth0'' [tracing_cb 0 1, tracing_cb (- 5) 2, tracing_cb 0 3]),
      hw = ([] :: nat list)\<rparr>"
  let ?w2 = "\<lparr>heap = empty_heap,
      chains = (\<lambda>_. sample_chain 3 ''eth0'' [tracing_cb 0 1, tracing_cb 0 2]),
      hw = ([] :: nat list)\<rparr>"
  have td: "cls_flow_init ?tr FLOW_CLS_DESTROY empty_heap = Some ?td"
    by (simp add: cls_flow_init_def sample_trans_def)
  have base: "nft_is_base_chain (sample_chain 3 ''eth0'' cbs)" for cbs :: "nat list flow_block_cb list"
    by (simp add: nft_is_base_chain_def sample_chain_def NFT_BASE_CHAIN_def)
  have a: "nft_flow_offload_rule ?tr FLOW_CLS_DESTROY ?w1 = Some (- 5, ?w1\<lparr>hw := [1, 2]\<rparr>)"
    using rule_dispatch_in_list_order [of ?w1 ?tr FLOW_CLS_DESTROY ?td, THEN conjunct1,
        rule_format, of "[tracing_cb 0 1]" "tracing_cb (- 5) 2" "[tracing_cb 0 3]"] td base
    by (simp add: sample_chain_def tracing_cb_def run_all_def)
  have b: "nft_flow_offload_rule ?tr FLOW_CLS_DESTROY ?w2 = Some (0, ?w2\<lparr>hw := [1, 2]\<rparr>)"
    using rule_dispatch_in_list_order [of ?w2 ?tr FLOW_CLS_DESTROY ?td, THEN conjunct2] td base
    by (simp add: sample_chain_def tracing_cb_def run_all_def)
  from a b show ?thesis by simp
qed

subsection \<open>The commit walk\<close>

lemma commit_trans_Return:
  "commit_trans indr t err w = Some (Return e w') \<Longrightarrow> e = - EOPNOTSUPP \<and> w' = w"
  by (auto simp: commit_trans_def split: if_splits option.splits prod.splits)

lemma commit_loop_append:
  "commit_loop indr (xs @ ys) 0 w =
     (case commit_loop indr xs 0 w of
        None \<Rightarrow> None
      | Some (e, w') \<Rightarrow> if e \<noteq> 0 then Some (e, w') else commit_loop indr ys 0 w')"
  by (induction xs arbitrary: w)
     (auto split: option.splits step.splits dest: commit_trans_Return simp: EOPNOTSUPP_def)

lemma commit_trans_skip:
  "ctx_family t \<noteq> NFPROTO_NETDEV \<or> \<not> hw_offload_chain t w \<Longrightarrow>
   commit_trans indr t 0 w = Some Continue \<or> commit_trans indr t 0 w = Some (Break 0 w)"
  by (auto simp: commit_trans_def)

text \<open>
  Claim C3. The walk of \<^verbatim>\<open>nft_flow_rule_offload_commit\<close> over the commit list: a
  record whose family is not \<^verbatim>\<open>NFPROTO_NETDEV\<close>, or whose chain lacks
  \<^verbatim>\<open>NFT_CHAIN_HW_OFFLOAD\<close>, is passed over with the state untouched; when the records
  of a prefix of the list all went through, the walk goes on with the rest from the
  state the prefix left (the list is worked in its order); and when the record after
  such a prefix fails with \<open>e\<close> leaving state \<open>w2\<close>, the whole walk returns \<open>e\<close> with
  exactly \<open>w2\<close>, whatever records follow: the work of the earlier records is still in
  the state and the later records are not looked at.
\<close>

theorem commit_walk_in_order_no_rollback:
  "(ctx_family t \<noteq> NFPROTO_NETDEV \<or> \<not> hw_offload_chain t w \<longrightarrow>
      nft_flow_rule_offload_commit indr (n\<lparr>commit_list := t # ts\<rparr>) w
      = nft_flow_rule_offload_commit indr (n\<lparr>commit_list := ts\<rparr>) w)
   \<and> (nft_flow_rule_offload_commit indr (n\<lparr>commit_list := pre\<rparr>) w = Some (0, w1)
      \<longrightarrow> nft_flow_rule_offload_commit indr (n\<lparr>commit_list := pre @ post\<rparr>) w
          = nft_flow_rule_offload_commit indr (n\<lparr>commit_list := post\<rparr>) w1)
   \<and> (nft_flow_rule_offload_commit indr (n\<lparr>commit_list := pre\<rparr>) w = Some (0, w1)
      \<and> nft_flow_rule_offload_commit indr (n\<lparr>commit_list := [t]\<rparr>) w1 = Some (e, w2)
      \<and> e \<noteq> 0
      \<longrightarrow> nft_flow_rule_offload_commit indr (n\<lparr>commit_list := pre @ t # post\<rparr>) w
          = Some (e, w2))"
proof (intro conjI impI)
  assume "ctx_family t \<noteq> NFPROTO_NETDEV \<or> \<not> hw_offload_chain t w"
  from commit_trans_skip [OF this, of indr]
  show "nft_flow_rule_offload_commit indr (n\<lparr>commit_list := t # ts\<rparr>) w
      = nft_flow_rule_offload_commit indr (n\<lparr>commit_list := ts\<rparr>) w"
    by (auto simp: nft_flow_rule_offload_commit_def)
next
  assume "nft_flow_rule_offload_commit indr (n\<lparr>commit_list := pre\<rparr>) w = Some (0, w1)"
  then show "nft_flow_rule_offload_commit indr (n\<lparr>commit_list := pre @ post\<rparr>) w
          = nft_flow_rule_offload_commit indr (n\<lparr>commit_list := post\<rparr>) w1"
    by (simp add: nft_flow_rule_offload_commit_def commit_loop_append)
next
  assume a: "nft_flow_rule_offload_commit indr (n\<lparr>commit_list := pre\<rparr>) w = Some (0, w1)
      \<and> nft_flow_rule_offload_commit indr (n\<lparr>commit_list := [t]\<rparr>) w1 = Some (e, w2)
      \<and> e \<noteq> 0"
  have "commit_loop indr (t # post) 0 w1 = Some (e, w2)"
    using a by (auto simp: nft_flow_rule_offload_commit_def split: option.splits step.splits if_splits)
  then show "nft_flow_rule_offload_commit indr (n\<lparr>commit_list := pre @ t # post\<rparr>) w
          = Some (e, w2)"
    using a by (simp add: nft_flow_rule_offload_commit_def commit_loop_append)
qed


lemma nft_block_setup_flags:
  "nft_block_setup c bo cmd w = (e, w') \<Longrightarrow> flags (chains w' a) = flags (chains w a)"
  by (auto simp: nft_block_setup_def nft_flow_offload_bind_def nft_flow_offload_unbind_def
      set_flow_block_def split: flow_block_command.splits)

lemma driver_returned_flags: "flags (chains (driver_returned c bo s w) a) = flags (chains w a)"
  by (simp add: driver_returned_def set_flow_block_def)

lemma nft_flow_offload_chain_flags:
  "nft_flow_offload_chain indr t cmd w = (e, w') \<Longrightarrow> flags (chains w' a) = flags (chains w a)"
  by (auto simp: nft_flow_offload_chain_def nft_block_offload_cmd_def
      nft_indr_block_offload_cmd_def Let_def driver_returned_flags
      split: if_splits option.splits prod.splits dest!: nft_block_setup_flags [where a = a])

lemma nft_flow_offload_rule_flags:
  "nft_flow_offload_rule t cmd w = Some (e, w') \<Longrightarrow> chains w' = chains w"
  by (auto simp: nft_flow_offload_rule_def Let_def split: if_splits option.splits prod.splits)

lemma commit_trans_Break_flags:
  "commit_trans indr t err w = Some (Break e w') \<Longrightarrow> flags (chains w' a) = flags (chains w a)"
  by (auto simp: commit_trans_def split: if_splits option.splits prod.splits
      dest: nft_flow_offload_chain_flags [where a = a] nft_flow_offload_rule_flags)

lemma commit_loop_flags:
  "commit_loop indr ts err w = Some (e, w') \<Longrightarrow> flags (chains w' a) = flags (chains w a)"
proof (induction ts arbitrary: err w)
  case Nil
  then show ?case by simp
next
  case (Cons t ts)
  show ?case
  proof (cases "commit_trans indr t err w")
    case None
    with Cons.prems show ?thesis by simp
  next
    case (Some st)
    show ?thesis
    proof (cases st)
      case Continue
      with Some Cons show ?thesis by simp
    next
      case (Break e1 w1)
      note fl = commit_trans_Break_flags [OF Some [unfolded Break], of a]
      show ?thesis
      proof (cases "e1 = 0")
        case True
        with Some Break Cons.prems have "commit_loop indr ts 0 w1 = Some (e, w')" by simp
        from Cons.IH [OF this] fl show ?thesis by simp
      next
        case False
        with Some Break Cons.prems fl show ?thesis by simp
      qed
    next
      case (Return e1 w1)
      with Some Cons.prems commit_trans_Return [of indr t err w e1 w1] show ?thesis by simp
    qed
  qed
qed

lemma commit_trans_rejects:
  "ctx_family t = NFPROTO_NETDEV \<Longrightarrow> msg_type t = NFT_MSG_NEWRULE \<Longrightarrow> hw_offload_chain t w \<Longrightarrow>
   replace_or_not_append t \<Longrightarrow>
   commit_trans indr t err w = Some (Return (- EOPNOTSUPP) w)"
  by (auto simp: commit_trans_def replace_or_not_append_def NFT_MSG_NEWRULE_def NFT_MSG_NEWCHAIN_def
      NFT_MSG_DELCHAIN_def)

lemma hw_offload_chain_cong:
  "(\<And>a. flags (chains w' a) = flags (chains w a)) \<Longrightarrow> hw_offload_chain t w' = hw_offload_chain t w"
  by (simp add: hw_offload_chain_def)

lemma commit_loop_never_succeeds:
  "t \<in> set ts \<Longrightarrow> ctx_family t = NFPROTO_NETDEV \<Longrightarrow> msg_type t = NFT_MSG_NEWRULE \<Longrightarrow>
   hw_offload_chain t w \<Longrightarrow> replace_or_not_append t \<Longrightarrow> commit_loop indr ts 0 w \<noteq> Some (0, w')"
proof (induction ts arbitrary: w)
  case Nil
  then show ?case by simp
next
  case (Cons x xs)
  show ?case
  proof (cases "x = t")
    case True
    with Cons.prems commit_trans_rejects [of t w indr 0] show ?thesis
      by (simp add: EOPNOTSUPP_def)
  next
    case False
    with Cons.prems have mem: "t \<in> set xs" by simp
    show ?thesis
    proof (cases "commit_trans indr x 0 w")
      case None
      then show ?thesis by simp
    next
      case (Some st)
      show ?thesis
      proof (cases st)
        case Continue
        with Some Cons.IH [OF mem Cons.prems(2,3,4,5)] show ?thesis by simp
      next
        case (Break e1 w1)
        have "hw_offload_chain t w1"
          using commit_trans_Break_flags [OF Some [unfolded Break]] Cons.prems(4)
          by (simp add: hw_offload_chain_def)
        from Cons.IH [OF mem Cons.prems(2,3) this Cons.prems(5)] Some Break
        show ?thesis by simp
      next
        case (Return e1 w1)
        with Some commit_trans_Return [of indr x 0 w e1 w1] show ?thesis
          by (simp add: EOPNOTSUPP_def)
      qed
    qed
  qed
qed


lemmas sample_defs =
  sample_world_def sample_chain_def sample_dev_def sample_trans_def tracing_cb_def
  empty_heap_def no_indr_def sample_heap_def zero_nft_flow_rule_def

lemmas const_defs =
  NFT_MSG_NEWRULE_def NFT_MSG_NEWCHAIN_def NFT_MSG_DELRULE_def NFT_MSG_DELCHAIN_def
  NFPROTO_NETDEV_def NF_ACCEPT_def NF_DROP_def NFT_CHAIN_HW_OFFLOAD_def NFT_BASE_CHAIN_def NULL_def
  NLM_F_REPLACE_def NLM_F_APPEND_def EOPNOTSUPP_def ENOMEM_def ETH_P_ALL_def

lemmas commit_defs =
  nft_flow_rule_offload_commit_def commit_trans_def hw_offload_chain_def
  nft_flow_offload_chain_def nft_is_base_chain_def nft_block_offload_cmd_def
  nft_indr_block_offload_cmd_def bo_init_def driver_returned_def set_flow_block_def
  nft_block_setup_def nft_flow_offload_bind_def nft_flow_offload_unbind_def
  nft_flow_offload_rule_def cls_flow_init_def replace_or_not_append_def Let_def

text \<open>
  A record of another family, a new chain that binds a callback, a rule deletion that
  this callback refuses with \<open>-5\<close>, and one more deletion: the walk returns \<open>-5\<close>, the
  callback is still bound to the chain, and it ran once.
\<close>

theorem commit_walk_in_order_no_rollback_witness:
  "nft_flow_rule_offload_commit no_indr
     \<lparr>commit_list =
        [sample_trans NFT_MSG_NEWRULE 2 0 1 NULL 0,
         sample_trans NFT_MSG_NEWCHAIN NFPROTO_NETDEV 0 1 NULL NF_ACCEPT,
         sample_trans NFT_MSG_DELRULE NFPROTO_NETDEV 0 1 NULL 0,
         sample_trans NFT_MSG_DELRULE NFPROTO_NETDEV 0 1 NULL 0],
      tables = []\<rparr>
     (sample_world empty_heap
        ((sample_chain 3 ''eth0'' [])\<lparr>ops_dev := Some (sample_dev 0 [tracing_cb (- 5) 9])\<rparr>))
   = Some (- 5,
       set_flow_block 1 [tracing_cb (- 5) 9]
         ((sample_world empty_heap
            ((sample_chain 3 ''eth0'' [])\<lparr>ops_dev := Some (sample_dev 0 [tracing_cb (- 5) 9])\<rparr>))
          \<lparr>hw := [100, 9]\<rparr>))"
proof -
  let ?n = "\<lparr>commit_list = [], tables = []\<rparr>"
  let ?w = "sample_world empty_heap
        ((sample_chain 3 ''eth0'' [])\<lparr>ops_dev := Some (sample_dev 0 [tracing_cb (- 5) 9])\<rparr>)"
  let ?skip = "sample_trans NFT_MSG_NEWRULE 2 0 1 NULL 0"
  let ?bind = "sample_trans NFT_MSG_NEWCHAIN NFPROTO_NETDEV 0 1 NULL NF_ACCEPT"
  let ?del = "sample_trans NFT_MSG_DELRULE NFPROTO_NETDEV 0 1 NULL 0"
  let ?w1 = "set_flow_block 1 [tracing_cb (- 5) 9] (?w\<lparr>hw := [100]\<rparr>)"
  let ?w2 = "set_flow_block 1 [tracing_cb (- 5) 9] (?w\<lparr>hw := [100, 9]\<rparr>)"
  have skip: "ctx_family ?skip \<noteq> NFPROTO_NETDEV"
    by (simp add: sample_defs const_defs)
  have pre: "nft_flow_rule_offload_commit no_indr (?n\<lparr>commit_list := [?bind]\<rparr>) ?w = Some (0, ?w1)"
    by (simp add: commit_defs sample_defs const_defs)
  have fails: "nft_flow_rule_offload_commit no_indr (?n\<lparr>commit_list := [?del]\<rparr>) ?w1
      = Some (- 5, ?w2)"
    by (simp add: commit_defs sample_defs const_defs)
  have "nft_flow_rule_offload_commit no_indr (?n\<lparr>commit_list := ?skip # [?bind] @ ?del # [?del]\<rparr>) ?w
      = nft_flow_rule_offload_commit no_indr (?n\<lparr>commit_list := [?bind] @ ?del # [?del]\<rparr>) ?w"
    using commit_walk_in_order_no_rollback
      [where t = ?skip and w = ?w and indr = no_indr and n = ?n
         and ts = "[?bind] @ ?del # [?del]", THEN conjunct1] skip
    by blast
  also have "\<dots> = Some (- 5, ?w2)"
    using commit_walk_in_order_no_rollback
      [where indr = no_indr and n = ?n and pre = "[?bind]" and w = ?w and ?w1.0 = ?w1
         and t = ?del and e = "- 5" and ?w2.0 = ?w2 and post = "[?del]",
       THEN conjunct2, THEN conjunct2]
      pre fails
    by simp
  finally show ?thesis by simp
qed


text \<open>
  Claim C4, as amended. A new-rule record of the device family on an offload-enabled
  chain, marked as a replace or not marked as an append: when the records ahead of it
  all went through, the commit returns \<^verbatim>\<open>-EOPNOTSUPP\<close> and the state is the one those
  records left, whatever flow rule the record carries; and no commit list that holds
  such a record commits with success.
\<close>

theorem new_rule_insertion_mode_unsupported:
  assumes fam: "ctx_family t = NFPROTO_NETDEV"
    and msg: "msg_type t = NFT_MSG_NEWRULE"
    and off: "hw_offload_chain t w"
    and mode: "replace_or_not_append t"
  shows "(nft_flow_rule_offload_commit indr (n\<lparr>commit_list := pre\<rparr>) w = Some (0, w1)
          \<longrightarrow> nft_flow_rule_offload_commit indr (n\<lparr>commit_list := pre @ t # post\<rparr>) w
              = Some (- EOPNOTSUPP, w1)
            \<and> nft_flow_rule_offload_commit indr
                (n\<lparr>commit_list := pre @ t\<lparr>trans_flow_rule := flow'\<rparr> # post\<rparr>) w
              = Some (- EOPNOTSUPP, w1))
       \<and> (t \<in> set (commit_list n) \<longrightarrow> nft_flow_rule_offload_commit indr n w \<noteq> Some (0, w'))"
proof (intro conjI impI)
  assume pre: "nft_flow_rule_offload_commit indr (n\<lparr>commit_list := pre\<rparr>) w = Some (0, w1)"
  then have off1: "hw_offload_chain t w1"
    using off commit_loop_flags [of indr pre 0 w 0 w1]
    by (simp add: nft_flow_rule_offload_commit_def hw_offload_chain_def)
  have "commit_trans indr t 0 w1 = Some (Return (- EOPNOTSUPP) w1)"
    using commit_trans_rejects [OF fam msg off1 mode] .
  with pre show "nft_flow_rule_offload_commit indr (n\<lparr>commit_list := pre @ t # post\<rparr>) w
      = Some (- EOPNOTSUPP, w1)"
    by (simp add: nft_flow_rule_offload_commit_def commit_loop_append)
  have "commit_trans indr (t\<lparr>trans_flow_rule := flow'\<rparr>) 0 w1 = Some (Return (- EOPNOTSUPP) w1)"
    using fam msg off1 mode
    by (intro commit_trans_rejects) (simp_all add: hw_offload_chain_def replace_or_not_append_def)
  with pre show "nft_flow_rule_offload_commit indr
      (n\<lparr>commit_list := pre @ t\<lparr>trans_flow_rule := flow'\<rparr> # post\<rparr>) w = Some (- EOPNOTSUPP, w1)"
    by (simp add: nft_flow_rule_offload_commit_def commit_loop_append)
next
  assume "t \<in> set (commit_list n)"
  from commit_loop_never_succeeds [OF this fam msg off mode]
  show "nft_flow_rule_offload_commit indr n w \<noteq> Some (0, w')"
    by (simp add: nft_flow_rule_offload_commit_def)
qed

text \<open>
  A chain is bound, then a new rule arrives as a replace: \<^verbatim>\<open>-EOPNOTSUPP\<close>, with the
  bind still in place and the deletion after it not run.
\<close>

theorem new_rule_insertion_mode_unsupported_witness:
  "nft_flow_rule_offload_commit no_indr
     \<lparr>commit_list =
        [sample_trans NFT_MSG_NEWCHAIN NFPROTO_NETDEV 0 1 NULL NF_ACCEPT,
         sample_trans NFT_MSG_NEWRULE NFPROTO_NETDEV NLM_F_REPLACE 1 5 0,
         sample_trans NFT_MSG_DELRULE NFPROTO_NETDEV 0 1 NULL 0],
      tables = []\<rparr>
     (sample_world empty_heap
        ((sample_chain 3 ''eth0'' [])\<lparr>ops_dev := Some (sample_dev 0 [tracing_cb 0 9])\<rparr>))
   = Some (- EOPNOTSUPP,
       set_flow_block 1 [tracing_cb 0 9]
         ((sample_world empty_heap
            ((sample_chain 3 ''eth0'' [])\<lparr>ops_dev := Some (sample_dev 0 [tracing_cb 0 9])\<rparr>))
          \<lparr>hw := [100]\<rparr>))"
proof -
  let ?n = "\<lparr>commit_list = [], tables = []\<rparr>"
  let ?w = "sample_world empty_heap
        ((sample_chain 3 ''eth0'' [])\<lparr>ops_dev := Some (sample_dev 0 [tracing_cb 0 9])\<rparr>)"
  let ?bind = "sample_trans NFT_MSG_NEWCHAIN NFPROTO_NETDEV 0 1 NULL NF_ACCEPT"
  let ?new = "sample_trans NFT_MSG_NEWRULE NFPROTO_NETDEV NLM_F_REPLACE 1 5 0"
  let ?del = "sample_trans NFT_MSG_DELRULE NFPROTO_NETDEV 0 1 NULL 0"
  let ?w1 = "set_flow_block 1 [tracing_cb 0 9] (?w\<lparr>hw := [100]\<rparr>)"
  have fam: "ctx_family ?new = NFPROTO_NETDEV" and msg: "msg_type ?new = NFT_MSG_NEWRULE"
    by (simp_all add: sample_defs)
  have off: "hw_offload_chain ?new ?w"
    by (simp add: hw_offload_chain_def sample_defs const_defs)
  have mode: "replace_or_not_append ?new"
    by (simp add: replace_or_not_append_def sample_defs const_defs)
  have pre: "nft_flow_rule_offload_commit no_indr (?n\<lparr>commit_list := [?bind]\<rparr>) ?w = Some (0, ?w1)"
    by (simp add: commit_defs sample_defs const_defs)
  from new_rule_insertion_mode_unsupported
    [OF fam msg off mode, where indr = no_indr and n = ?n and pre = "[?bind]" and ?w1.0 = ?w1
       and post = "[?del]", THEN conjunct1] pre
  show ?thesis by simp
qed

text \<open>
  Claim C4 as stated fails in two ways. A new-rule record marked as a replace, on an
  offload-enabled chain, but of another family (2, IPv4): the walk passes it over and
  the commit succeeds. The same record of the device family behind a rule deletion
  that a callback refuses with \<open>-5\<close>: the commit returns \<open>-5\<close>, not \<^verbatim>\<open>-EOPNOTSUPP\<close>.
\<close>

theorem new_rule_insertion_mode_counterexample:
  "hw_offload_chain (sample_trans NFT_MSG_NEWRULE 2 NLM_F_REPLACE 1 5 0)
     (sample_world empty_heap (sample_chain 3 ''eth0'' [tracing_cb (- 5) 9]))
   \<and> replace_or_not_append (sample_trans NFT_MSG_NEWRULE 2 NLM_F_REPLACE 1 5 0)
   \<and> nft_flow_rule_offload_commit no_indr
       \<lparr>commit_list = [sample_trans NFT_MSG_NEWRULE 2 NLM_F_REPLACE 1 5 0], tables = []\<rparr>
       (sample_world empty_heap (sample_chain 3 ''eth0'' [tracing_cb (- 5) 9]))
     = Some (0, sample_world empty_heap (sample_chain 3 ''eth0'' [tracing_cb (- 5) 9]))
   \<and> nft_flow_rule_offload_commit no_indr
       \<lparr>commit_list =
          [sample_trans NFT_MSG_DELRULE NFPROTO_NETDEV 0 1 NULL 0,
           sample_trans NFT_MSG_NEWRULE NFPROTO_NETDEV NLM_F_REPLACE 1 5 0],
        tables = []\<rparr>
       (sample_world empty_heap (sample_chain 3 ''eth0'' [tracing_cb (- 5) 9]))
     = Some (- 5, (sample_world empty_heap (sample_chain 3 ''eth0'' [tracing_cb (- 5) 9]))\<lparr>hw := [9]\<rparr>)
   \<and> - 5 \<noteq> - EOPNOTSUPP"
  by (simp add: commit_defs sample_defs const_defs)


lemma kfree_Some:
  "kfree p h = Some h' \<Longrightarrow>
   h' = h\<lparr>objs := (if p = NULL then objs h else (objs h)(p := None))\<rparr>"
  by (auto simp: kfree_def split: if_splits)

lemma nft_flow_rule_destroy_Some:
  assumes "nft_flow_rule_destroy flow h = Some h'"
  shows "\<exists>f. read_nft_flow_rule h flow = Some f \<and> flow \<noteq> NULL
           \<and> h' = h\<lparr>objs := (if rule f = NULL then objs h else (objs h)(rule f := None))
                              (flow := None)\<rparr>"
proof -
  from assms obtain f h1 where f: "read_nft_flow_rule h flow = Some f"
    and h1: "kfree (rule f) h = Some h1" and h': "kfree flow h1 = Some h'"
    by (auto simp: nft_flow_rule_destroy_def split: option.splits)
  from f have nn: "flow \<noteq> NULL"
    by (auto simp: read_nft_flow_rule_def split: if_splits)
  from kfree_Some [OF h1] kfree_Some [OF h'] nn f show ?thesis by auto
qed

lemma nft_flow_offload_rule_heap:
  "nft_flow_offload_rule t cmd w = Some (e, w') \<Longrightarrow> heap w' = heap w"
  by (auto simp: nft_flow_offload_rule_def Let_def split: if_splits option.splits prod.splits)

lemma commit_trans_accepts:
  assumes "ctx_family t = NFPROTO_NETDEV" "msg_type t = NFT_MSG_NEWRULE" "hw_offload_chain t w"
    "\<not> replace_or_not_append t"
  shows "commit_trans indr t err w =
     (case nft_flow_offload_rule t FLOW_CLS_REPLACE w of
        None \<Rightarrow> None
      | Some (e, w') \<Rightarrow>
          (case nft_flow_rule_destroy (trans_flow_rule t) (heap w') of
             None \<Rightarrow> None
           | Some h \<Rightarrow> Some (Break e (w'\<lparr>heap := h\<rparr>))))"
  using assms
  by (auto simp: commit_trans_def replace_or_not_append_def NFT_MSG_NEWRULE_def
      NFT_MSG_NEWCHAIN_def NFT_MSG_DELCHAIN_def)

text \<open>
  Claim C10. For a new-rule record of the device family on an offload-enabled chain:
  when the insertion mode is rejected, the walk returns \<^verbatim>\<open>-EOPNOTSUPP\<close> and the state,
  the heap with the record's flow rule included, is untouched. When the mode is
  accepted and the walk returns (with any result \<open>e\<close>), \<open>e\<close> is the result of the
  replace dispatch, and the record's flow rule and the \<^verbatim>\<open>flow_rule\<close> it points to are
  no longer live while every other object is as before. So a flow rule that was live
  and is gone after the record was handled went down the accepted path.
\<close>

theorem rejected_new_rule_keeps_flow_rule:
  assumes fam: "ctx_family t = NFPROTO_NETDEV"
    and msg: "msg_type t = NFT_MSG_NEWRULE"
    and off: "hw_offload_chain t w"
  shows "(replace_or_not_append t \<longrightarrow>
            nft_flow_rule_offload_commit indr (n\<lparr>commit_list := [t]\<rparr>) w = Some (- EOPNOTSUPP, w))
       \<and> (\<not> replace_or_not_append t
           \<and> nft_flow_rule_offload_commit indr (n\<lparr>commit_list := [t]\<rparr>) w = Some (e, w') \<longrightarrow>
            (\<exists>f w''. read_nft_flow_rule (heap w) (trans_flow_rule t) = Some f
               \<and> nft_flow_offload_rule t FLOW_CLS_REPLACE w = Some (e, w'')
               \<and> trans_flow_rule t \<notin> dom (objs (heap w'))
               \<and> (rule f \<noteq> NULL \<longrightarrow> rule f \<notin> dom (objs (heap w')))
               \<and> (\<forall>a. a \<noteq> trans_flow_rule t \<and> a \<noteq> rule f \<longrightarrow>
                     objs (heap w') a = objs (heap w) a)))
       \<and> (nft_flow_rule_offload_commit indr (n\<lparr>commit_list := [t]\<rparr>) w = Some (e, w')
           \<and> trans_flow_rule t \<in> dom (objs (heap w))
           \<and> trans_flow_rule t \<notin> dom (objs (heap w')) \<longrightarrow>
            \<not> replace_or_not_append t)"
proof -
  have rej: "nft_flow_rule_offload_commit indr (n\<lparr>commit_list := [t]\<rparr>) w = Some (- EOPNOTSUPP, w)"
    if "replace_or_not_append t"
    using commit_trans_rejects [OF fam msg off that, of indr 0]
    by (simp add: nft_flow_rule_offload_commit_def)
  have acc: "\<exists>f w''. read_nft_flow_rule (heap w) (trans_flow_rule t) = Some f
               \<and> nft_flow_offload_rule t FLOW_CLS_REPLACE w = Some (e, w'')
               \<and> trans_flow_rule t \<notin> dom (objs (heap w'))
               \<and> (rule f \<noteq> NULL \<longrightarrow> rule f \<notin> dom (objs (heap w')))
               \<and> (\<forall>a. a \<noteq> trans_flow_rule t \<and> a \<noteq> rule f \<longrightarrow>
                     objs (heap w') a = objs (heap w) a)"
    if mode: "\<not> replace_or_not_append t"
      and run: "nft_flow_rule_offload_commit indr (n\<lparr>commit_list := [t]\<rparr>) w = Some (e, w')"
  proof -
    from run commit_trans_accepts [OF fam msg off mode, of indr 0]
    obtain w2 h where disp: "nft_flow_offload_rule t FLOW_CLS_REPLACE w = Some (e, w2)"
      and des: "nft_flow_rule_destroy (trans_flow_rule t) (heap w2) = Some h"
      and w': "w' = w2\<lparr>heap := h\<rparr>"
      by (auto simp: nft_flow_rule_offload_commit_def split: option.splits if_splits)
    from nft_flow_offload_rule_heap [OF disp] have hp: "heap w2 = heap w" .
    from nft_flow_rule_destroy_Some [OF des [unfolded hp]]
    obtain f where f: "read_nft_flow_rule (heap w) (trans_flow_rule t) = Some f"
      and h: "h = (heap w)\<lparr>objs := (if rule f = NULL then objs (heap w)
                 else (objs (heap w))(rule f := None))(trans_flow_rule t := None)\<rparr>"
      by blast
    show ?thesis
      using f disp w' h by (intro exI [of _ f] exI [of _ w2]) auto
  qed
  show ?thesis
    using rej acc by (auto simp del: not_None_eq)
qed


text \<open>
  The flow rule at address 5. A record that is not an append: rejected, the heap as
  before. The same record as an append on a chain whose callback refuses with \<open>-5\<close>:
  the walk returns \<open>-5\<close> and the objects at 5 and 6 are gone.
\<close>

theorem rejected_new_rule_keeps_flow_rule_witness:
  "nft_flow_rule_offload_commit no_indr
     \<lparr>commit_list = [sample_trans NFT_MSG_NEWRULE NFPROTO_NETDEV 0 1 5 0], tables = []\<rparr>
     (sample_world sample_heap (sample_chain 3 ''eth0'' [tracing_cb (- 5) 9]))
   = Some (- EOPNOTSUPP, sample_world sample_heap (sample_chain 3 ''eth0'' [tracing_cb (- 5) 9]))
   \<and> 5 \<in> dom (objs sample_heap)
   \<and> nft_flow_rule_offload_commit no_indr
     \<lparr>commit_list = [sample_trans NFT_MSG_NEWRULE NFPROTO_NETDEV NLM_F_APPEND 1 5 0], tables = []\<rparr>
     (sample_world sample_heap (sample_chain 3 ''eth0'' [tracing_cb (- 5) 9]))
   = Some (- 5, (sample_world sample_heap (sample_chain 3 ''eth0'' [tracing_cb (- 5) 9]))
        \<lparr>hw := [9], heap := sample_heap\<lparr>objs := (objs sample_heap)(6 := None, 5 := None)\<rparr>\<rparr>)
   \<and> 5 \<notin> dom ((objs sample_heap)(6 := None, 5 := None))
   \<and> 6 \<notin> dom ((objs sample_heap)(6 := None, 5 := None))"
proof -
  let ?n = "\<lparr>commit_list = [], tables = []\<rparr>"
  let ?w = "sample_world sample_heap (sample_chain 3 ''eth0'' [tracing_cb (- 5) 9])"
  let ?rej = "sample_trans NFT_MSG_NEWRULE NFPROTO_NETDEV 0 1 5 0"
  let ?acc = "sample_trans NFT_MSG_NEWRULE NFPROTO_NETDEV NLM_F_APPEND 1 5 0"
  let ?w' = "?w\<lparr>hw := [9], heap := sample_heap\<lparr>objs := (objs sample_heap)(6 := None, 5 := None)\<rparr>\<rparr>"
  have fam: "ctx_family ?rej = NFPROTO_NETDEV" "ctx_family ?acc = NFPROTO_NETDEV"
    and msg: "msg_type ?rej = NFT_MSG_NEWRULE" "msg_type ?acc = NFT_MSG_NEWRULE"
    by (simp_all add: sample_defs)
  have off: "hw_offload_chain ?rej ?w" "hw_offload_chain ?acc ?w"
    by (simp_all add: hw_offload_chain_def sample_defs const_defs)
  have mode: "replace_or_not_append ?rej" "\<not> replace_or_not_append ?acc"
    by (simp_all add: replace_or_not_append_def sample_defs const_defs)
  have live: "5 \<in> dom (objs sample_heap)"
    by (simp add: sample_heap_def)
  have run: "nft_flow_rule_offload_commit no_indr (?n\<lparr>commit_list := [?acc]\<rparr>) ?w = Some (- 5, ?w')"
    by (simp add: commit_defs sample_defs const_defs nft_flow_rule_destroy_def
        read_nft_flow_rule_def kfree_def)
  have a: "nft_flow_rule_offload_commit no_indr (?n\<lparr>commit_list := [?rej]\<rparr>) ?w
      = Some (- EOPNOTSUPP, ?w)"
    using rejected_new_rule_keeps_flow_rule
      [OF fam(1) msg(1) off(1), where indr = no_indr and n = ?n, THEN conjunct1] mode(1)
    by blast
  have "\<exists>f w''. read_nft_flow_rule (heap ?w) (trans_flow_rule ?acc) = Some f
          \<and> nft_flow_offload_rule ?acc FLOW_CLS_REPLACE ?w = Some (- 5, w'')
          \<and> trans_flow_rule ?acc \<notin> dom (objs (heap ?w'))
          \<and> (rule f \<noteq> NULL \<longrightarrow> rule f \<notin> dom (objs (heap ?w')))
          \<and> (\<forall>a. a \<noteq> trans_flow_rule ?acc \<and> a \<noteq> rule f \<longrightarrow>
                objs (heap ?w') a = objs (heap ?w) a)"
    using rejected_new_rule_keeps_flow_rule
      [OF fam(2) msg(2) off(2), where indr = no_indr and n = ?n and e = "- 5" and w' = ?w',
       THEN conjunct2, THEN conjunct1] mode(2) run
    by blast
  then have b: "5 \<notin> dom ((objs sample_heap)(6 := None, 5 := None))
      \<and> 6 \<notin> dom ((objs sample_heap)(6 := None, 5 := None))"
    by (auto simp: sample_world_def sample_trans_def read_nft_flow_rule_def sample_heap_def
        zero_nft_flow_rule_def NULL_def)
  from a live run b show ?thesis by simp
qed

subsection \<open>Binding a chain's block\<close>

lemma commit_single_new_chain:
  assumes "ctx_family t = NFPROTO_NETDEV" "msg_type t = NFT_MSG_NEWCHAIN" "hw_offload_chain t w"
  shows "nft_flow_rule_offload_commit indr (n\<lparr>commit_list := [t]\<rparr>) w
    = Some (nft_flow_offload_chain indr t FLOW_BLOCK_BIND w)"
  using assms
  by (cases "nft_flow_offload_chain indr t FLOW_BLOCK_BIND w")
     (simp add: nft_flow_rule_offload_commit_def commit_trans_def)

text \<open>
  Claim C5, as amended. For a new-chain record of the device family on an
  offload-enabled chain, with \<open>p\<close> in its policy member: when \<open>p\<close> is neither
  \<^verbatim>\<open>NF_ACCEPT\<close> nor the mark of a policy left unset, the bind and the commit of the
  one-record list return \<^verbatim>\<open>-EOPNOTSUPP\<close> and change nothing. When \<open>p\<close> is
  \<^verbatim>\<open>NF_ACCEPT\<close> and the chain is a base chain with a device, the policy check passes
  and the commit returns what the block command returns, through \<^verbatim>\<open>ndo_setup_tc\<close>
  when the device has it and through the indirect path otherwise. With
  \<^verbatim>\<open>ndo_setup_tc\<close>: when it does not return a negative result the commit succeeds,
  with the callbacks the driver handed back spliced in front of the chain's list; when
  it returns a negative result the commit fails with that result and nothing is spliced.
\<close>

theorem new_chain_policy_gate:
  assumes fam: "ctx_family t = NFPROTO_NETDEV"
    and msg: "msg_type t = NFT_MSG_NEWCHAIN"
    and off: "hw_offload_chain t w"
  shows "(uint p \<noteq> NF_ACCEPT \<and> p \<noteq> word_of_int (- 1) \<longrightarrow>
            nft_flow_offload_chain indr (t\<lparr>trans_chain_policy := p\<rparr>) FLOW_BLOCK_BIND w
              = (- EOPNOTSUPP, w)
            \<and> nft_flow_rule_offload_commit indr
                (n\<lparr>commit_list := [t\<lparr>trans_chain_policy := p\<rparr>]\<rparr>) w = Some (- EOPNOTSUPP, w))
       \<and> (uint p = NF_ACCEPT \<and> nft_is_base_chain (chains w (ctx_chain t))
            \<and> ops_dev (chains w (ctx_chain t)) = Some dev \<longrightarrow>
            nft_flow_rule_offload_commit indr
                (n\<lparr>commit_list := [t\<lparr>trans_chain_policy := p\<rparr>]\<rparr>) w
              = Some (case ndo_setup_tc dev of
                        Some f \<Rightarrow> nft_block_offload_cmd (ctx_chain t) dev f FLOW_BLOCK_BIND w
                      | None \<Rightarrow> nft_indr_block_offload_cmd indr (ctx_chain t) dev FLOW_BLOCK_BIND w))
       \<and> (uint p = NF_ACCEPT \<and> nft_is_base_chain (chains w (ctx_chain t))
            \<and> ops_dev (chains w (ctx_chain t)) = Some dev \<and> ndo_setup_tc dev = Some f
            \<and> f TC_SETUP_BLOCK (bo_init (ctx_chain t) dev FLOW_BLOCK_BIND w) (hw w) = (err, bo, s)
            \<and> 0 \<le> err \<longrightarrow>
            nft_flow_rule_offload_commit indr
                (n\<lparr>commit_list := [t\<lparr>trans_chain_policy := p\<rparr>]\<rparr>) w
              = Some (0, set_flow_block (ctx_chain t) (cb_list bo @ block_cb_list bo) (w\<lparr>hw := s\<rparr>)))
       \<and> (uint p = NF_ACCEPT \<and> nft_is_base_chain (chains w (ctx_chain t))
            \<and> ops_dev (chains w (ctx_chain t)) = Some dev \<and> ndo_setup_tc dev = Some f
            \<and> f TC_SETUP_BLOCK (bo_init (ctx_chain t) dev FLOW_BLOCK_BIND w) (hw w) = (err, bo, s)
            \<and> err < 0 \<longrightarrow>
            nft_flow_rule_offload_commit indr
                (n\<lparr>commit_list := [t\<lparr>trans_chain_policy := p\<rparr>]\<rparr>) w
              = Some (err, set_flow_block (ctx_chain t) (block_cb_list bo) (w\<lparr>hw := s\<rparr>)))"
proof -
  let ?t = "t\<lparr>trans_chain_policy := p\<rparr>"
  have c: "nft_flow_rule_offload_commit indr (n\<lparr>commit_list := [?t]\<rparr>) w
    = Some (nft_flow_offload_chain indr ?t FLOW_BLOCK_BIND w)"
    using fam msg off by (intro commit_single_new_chain) (simp_all add: hw_offload_chain_def)
  have range: "uint p \<noteq> - 1"
    using uint_ge_0 [of p] by linarith
  have gate: "nft_flow_offload_chain indr ?t FLOW_BLOCK_BIND w = (- EOPNOTSUPP, w)"
    if "uint p \<noteq> NF_ACCEPT \<and> p \<noteq> word_of_int (- 1)"
    using that range by (auto simp: nft_flow_offload_chain_def Let_def split: option.splits)
  have pass: "nft_flow_offload_chain indr ?t FLOW_BLOCK_BIND w
      = (case ndo_setup_tc dev of
           Some f \<Rightarrow> nft_block_offload_cmd (ctx_chain t) dev f FLOW_BLOCK_BIND w
         | None \<Rightarrow> nft_indr_block_offload_cmd indr (ctx_chain t) dev FLOW_BLOCK_BIND w)"
    if "uint p = NF_ACCEPT \<and> nft_is_base_chain (chains w (ctx_chain t))
            \<and> ops_dev (chains w (ctx_chain t)) = Some dev"
    using that by (auto simp: nft_flow_offload_chain_def Let_def split: option.splits)
  have ok: "nft_block_offload_cmd (ctx_chain t) dev f FLOW_BLOCK_BIND w
      = (0, set_flow_block (ctx_chain t) (cb_list bo @ block_cb_list bo) (w\<lparr>hw := s\<rparr>))"
    if "f TC_SETUP_BLOCK (bo_init (ctx_chain t) dev FLOW_BLOCK_BIND w) (hw w) = (err, bo, s)"
      "0 \<le> err"
    using that
    by (simp add: nft_block_offload_cmd_def nft_block_setup_def nft_flow_offload_bind_def
        driver_returned_def set_flow_block_def)
  have refused: "nft_block_offload_cmd (ctx_chain t) dev f FLOW_BLOCK_BIND w
      = (err, set_flow_block (ctx_chain t) (block_cb_list bo) (w\<lparr>hw := s\<rparr>))"
    if "f TC_SETUP_BLOCK (bo_init (ctx_chain t) dev FLOW_BLOCK_BIND w) (hw w) = (err, bo, s)"
      "err < 0"
    using that
    by (simp add: nft_block_offload_cmd_def driver_returned_def)
  show ?thesis
    using c gate pass ok refused by (auto simp del: not_None_eq)
qed

text \<open>
  One new-chain record. On a device whose driver accepts the bind and hands back one
  callback: with policy drop the commit returns \<^verbatim>\<open>-EOPNOTSUPP\<close> and nothing changes;
  with policy accept it returns 0 and the callback is bound. On a device whose driver
  refuses the bind with \<open>-16\<close>: with policy accept the commit returns \<open>-16\<close> and the
  chain's list stays empty.
\<close>

theorem new_chain_policy_gate_witness:
  "nft_flow_rule_offload_commit no_indr
     \<lparr>commit_list = [sample_trans NFT_MSG_NEWCHAIN NFPROTO_NETDEV 0 1 NULL NF_DROP], tables = []\<rparr>
     (sample_world empty_heap
        ((sample_chain 3 ''eth0'' [])\<lparr>ops_dev := Some (sample_dev 0 [tracing_cb 0 9])\<rparr>))
   = Some (- EOPNOTSUPP,
       sample_world empty_heap
        ((sample_chain 3 ''eth0'' [])\<lparr>ops_dev := Some (sample_dev 0 [tracing_cb 0 9])\<rparr>))
   \<and> nft_flow_rule_offload_commit no_indr
     \<lparr>commit_list = [sample_trans NFT_MSG_NEWCHAIN NFPROTO_NETDEV 0 1 NULL NF_ACCEPT], tables = []\<rparr>
     (sample_world empty_heap
        ((sample_chain 3 ''eth0'' [])\<lparr>ops_dev := Some (sample_dev 0 [tracing_cb 0 9])\<rparr>))
   = Some (0,
       set_flow_block 1 [tracing_cb 0 9]
         ((sample_world empty_heap
            ((sample_chain 3 ''eth0'' [])\<lparr>ops_dev := Some (sample_dev 0 [tracing_cb 0 9])\<rparr>))
          \<lparr>hw := [100]\<rparr>))
   \<and> nft_flow_rule_offload_commit no_indr
     \<lparr>commit_list = [sample_trans NFT_MSG_NEWCHAIN NFPROTO_NETDEV 0 1 NULL NF_ACCEPT], tables = []\<rparr>
     (sample_world empty_heap
        ((sample_chain 3 ''eth0'' [])\<lparr>ops_dev := Some (sample_dev (- 16) [tracing_cb 0 9])\<rparr>))
   = Some (- 16,
       set_flow_block 1 []
         ((sample_world empty_heap
            ((sample_chain 3 ''eth0'' [])\<lparr>ops_dev := Some (sample_dev (- 16) [tracing_cb 0 9])\<rparr>))
          \<lparr>hw := [100]\<rparr>))"
proof -
  let ?n = "\<lparr>commit_list = [], tables = []\<rparr>"
  let ?dev = "sample_dev 0 [tracing_cb 0 9]"
  let ?bad = "sample_dev (- 16) [tracing_cb 0 9]"
  let ?w = "sample_world empty_heap ((sample_chain 3 ''eth0'' [])\<lparr>ops_dev := Some ?dev\<rparr>)"
  let ?v = "sample_world empty_heap ((sample_chain 3 ''eth0'' [])\<lparr>ops_dev := Some ?bad\<rparr>)"
  let ?t = "sample_trans NFT_MSG_NEWCHAIN NFPROTO_NETDEV 0 1 NULL NF_DROP"
  let ?bo = "(bo_init 1 ?dev FLOW_BLOCK_BIND ?w)\<lparr>cb_list := [tracing_cb 0 9]\<rparr>"
  let ?bo' = "(bo_init 1 ?bad FLOW_BLOCK_BIND ?v)\<lparr>cb_list := [tracing_cb 0 9]\<rparr>"
  have fam: "ctx_family ?t = NFPROTO_NETDEV" and msg: "msg_type ?t = NFT_MSG_NEWCHAIN"
    by (simp_all add: sample_defs)
  have off: "hw_offload_chain ?t ?w" "hw_offload_chain ?t ?v"
    by (simp_all add: hw_offload_chain_def sample_defs const_defs)
  have drop: "?t\<lparr>trans_chain_policy := 0\<rparr> = ?t"
    and accept: "?t\<lparr>trans_chain_policy := 1\<rparr>
      = sample_trans NFT_MSG_NEWCHAIN NFPROTO_NETDEV 0 1 NULL NF_ACCEPT"
    by (simp_all add: sample_defs NF_DROP_def NF_ACCEPT_def)
  have set: "uint (1 :: u8) = NF_ACCEPT" and other: "uint (0 :: u8) \<noteq> NF_ACCEPT"
    and marked: "(0 :: u8) \<noteq> word_of_int (- 1)"
    by (simp_all add: NF_ACCEPT_def)
  have a: "nft_flow_rule_offload_commit no_indr (?n\<lparr>commit_list := [?t]\<rparr>) ?w
      = Some (- EOPNOTSUPP, ?w)"
    using new_chain_policy_gate
      [OF fam msg off(1), where p = 0 and indr = no_indr and n = ?n, THEN conjunct1, unfolded drop]
      other marked
    by blast
  have base: "nft_is_base_chain (chains ?w (ctx_chain ?t))"
    "nft_is_base_chain (chains ?v (ctx_chain ?t))"
    and dev: "ops_dev (chains ?w (ctx_chain ?t)) = Some ?dev"
    "ops_dev (chains ?v (ctx_chain ?t)) = Some ?bad"
    and ndo: "ndo_setup_tc ?dev = Some (\<lambda>ty bo s. (0, bo\<lparr>cb_list := [tracing_cb 0 9]\<rparr>, s @ [100]))"
    "ndo_setup_tc ?bad = Some (\<lambda>ty bo s. (- 16, bo\<lparr>cb_list := [tracing_cb 0 9]\<rparr>, s @ [100]))"
    by (simp_all add: nft_is_base_chain_def sample_defs const_defs)
  have call: "(\<lambda>ty bo s. (0, bo\<lparr>cb_list := [tracing_cb 0 9]\<rparr>, s @ [100]))
      TC_SETUP_BLOCK (bo_init (ctx_chain ?t) ?dev FLOW_BLOCK_BIND ?w) (hw ?w) = (0, ?bo, [100])"
    and call': "(\<lambda>ty bo s. (- 16, bo\<lparr>cb_list := [tracing_cb 0 9]\<rparr>, s @ [100]))
      TC_SETUP_BLOCK (bo_init (ctx_chain ?t) ?bad FLOW_BLOCK_BIND ?v) (hw ?v) = (- 16, ?bo', [100])"
    by (simp_all add: sample_defs)
  have b: "nft_flow_rule_offload_commit no_indr
      (?n\<lparr>commit_list := [?t\<lparr>trans_chain_policy := 1\<rparr>]\<rparr>) ?w
      = Some (0, set_flow_block (ctx_chain ?t) (cb_list ?bo @ block_cb_list ?bo) (?w\<lparr>hw := [100]\<rparr>))"
    using new_chain_policy_gate
      [OF fam msg off(1), where p = 1 and indr = no_indr and n = ?n and dev = ?dev
         and err = 0 and bo = ?bo and s = "[100]"
         and f = "\<lambda>ty bo s. (0, bo\<lparr>cb_list := [tracing_cb 0 9]\<rparr>, s @ [100])",
       THEN conjunct2, THEN conjunct2, THEN conjunct1]
      set base(1) dev(1) ndo(1) call
    by (simp del: not_None_eq)
  have c: "nft_flow_rule_offload_commit no_indr
      (?n\<lparr>commit_list := [?t\<lparr>trans_chain_policy := 1\<rparr>]\<rparr>) ?v
      = Some (- 16, set_flow_block (ctx_chain ?t) (block_cb_list ?bo') (?v\<lparr>hw := [100]\<rparr>))"
    using new_chain_policy_gate
      [OF fam msg off(2), where p = 1 and indr = no_indr and n = ?n and dev = ?bad
         and err = "- 16" and bo = ?bo' and s = "[100]"
         and f = "\<lambda>ty bo s. (- 16, bo\<lparr>cb_list := [tracing_cb 0 9]\<rparr>, s @ [100])",
       THEN conjunct2, THEN conjunct2, THEN conjunct2]
      set base(2) dev(2) ndo(2) call'
    by (simp del: not_None_eq)
  have d: "set_flow_block (ctx_chain ?t) (cb_list ?bo @ block_cb_list ?bo) (?w\<lparr>hw := [100]\<rparr>)
      = set_flow_block 1 [tracing_cb 0 9] (?w\<lparr>hw := [100]\<rparr>)"
    and e: "set_flow_block (ctx_chain ?t) (block_cb_list ?bo') (?v\<lparr>hw := [100]\<rparr>)
      = set_flow_block 1 [] (?v\<lparr>hw := [100]\<rparr>)"
    by (simp_all add: bo_init_def sample_defs)
  from a b c show ?thesis
    unfolding d e accept by simp
qed

text \<open>
  Claim C5 as stated fails where the driver refuses the bind: \<^verbatim>\<open>ndo_setup_tc\<close> returns
  \<open>-16\<close>. With policy drop the commit returns \<^verbatim>\<open>-EOPNOTSUPP\<close>; the same list with
  policy accept passes the policy check and returns \<open>-16\<close>, not success.
\<close>

theorem new_chain_policy_gate_counterexample:
  "hw_offload_chain (sample_trans NFT_MSG_NEWCHAIN NFPROTO_NETDEV 0 1 NULL NF_DROP)
     (sample_world empty_heap
        ((sample_chain 3 ''eth0'' [])\<lparr>ops_dev := Some (sample_dev (- 16) [])\<rparr>))
   \<and> nft_flow_rule_offload_commit no_indr
     \<lparr>commit_list = [sample_trans NFT_MSG_NEWCHAIN NFPROTO_NETDEV 0 1 NULL NF_DROP], tables = []\<rparr>
     (sample_world empty_heap
        ((sample_chain 3 ''eth0'' [])\<lparr>ops_dev := Some (sample_dev (- 16) [])\<rparr>))
   = Some (- EOPNOTSUPP,
       sample_world empty_heap
        ((sample_chain 3 ''eth0'' [])\<lparr>ops_dev := Some (sample_dev (- 16) [])\<rparr>))
   \<and> nft_flow_rule_offload_commit no_indr
     \<lparr>commit_list = [sample_trans NFT_MSG_NEWCHAIN NFPROTO_NETDEV 0 1 NULL NF_ACCEPT], tables = []\<rparr>
     (sample_world empty_heap
        ((sample_chain 3 ''eth0'' [])\<lparr>ops_dev := Some (sample_dev (- 16) [])\<rparr>))
   = Some (- 16,
       set_flow_block 1 []
         ((sample_world empty_heap
            ((sample_chain 3 ''eth0'' [])\<lparr>ops_dev := Some (sample_dev (- 16) [])\<rparr>))
          \<lparr>hw := [100]\<rparr>))"
  by (simp add: commit_defs sample_defs const_defs Let_def)

lemma uint_u8_minus_one: "uint (- 1 :: u8) = 255"
  by (simp add: unsigned_minus_1_eq_mask mask_eq_exp_minus_1)

text \<open>
  The comparison of the promoted \<^verbatim>\<open>u8\<close> policy with \<open>-1\<close> holds for every record: a
  record whose policy member was assigned \<open>-1\<close> holds 255 there and meets the same
  answer as any policy other than \<^verbatim>\<open>NF_ACCEPT\<close>.
\<close>

lemma policy_member_assigned_minus_one:
  "nft_flow_rule_offload_commit no_indr
     \<lparr>commit_list = [sample_trans NFT_MSG_NEWCHAIN NFPROTO_NETDEV 0 1 NULL (- 1)], tables = []\<rparr>
     (sample_world empty_heap
        ((sample_chain 3 ''eth0'' [])\<lparr>ops_dev := Some (sample_dev 0 [tracing_cb 0 9])\<rparr>))
   = Some (- EOPNOTSUPP,
       sample_world empty_heap
        ((sample_chain 3 ''eth0'' [])\<lparr>ops_dev := Some (sample_dev 0 [tracing_cb 0 9])\<rparr>))"
  by (simp add: commit_defs sample_defs const_defs Let_def uint_u8_minus_one)

text \<open>
  Claim C9. A base chain on a device without \<^verbatim>\<open>ndo_setup_tc\<close>; \<open>bo\<close> and \<open>s\<close> are
  the descriptor and the driver state \<^verbatim>\<open>flow_indr_block_call\<close> leaves. With the policy
  check passed, the bind is \<^verbatim>\<open>nft_indr_block_offload_cmd\<close>. When the descriptor's
  callback list comes back empty, the bind returns \<^verbatim>\<open>-EOPNOTSUPP\<close> and nothing is
  spliced: the chain's list is what stands behind the descriptor's block pointer.
  When it comes back with a callback, the bind returns 0 and the descriptor's list is
  spliced in front of the chain's list.
\<close>

theorem indirect_bind_needs_a_callback:
  assumes base: "nft_is_base_chain (chains w (ctx_chain t))"
    and dev: "ops_dev (chains w (ctx_chain t)) = Some dev"
    and nondo: "ndo_setup_tc dev = None"
    and call: "indr dev (bo_init (ctx_chain t) dev FLOW_BLOCK_BIND w) FLOW_BLOCK_BIND (hw w) = (bo, s)"
  shows "(uint (trans_chain_policy t) = NF_ACCEPT \<longrightarrow>
            nft_flow_offload_chain indr t FLOW_BLOCK_BIND w
              = nft_indr_block_offload_cmd indr (ctx_chain t) dev FLOW_BLOCK_BIND w)
       \<and> (cb_list bo = [] \<longrightarrow>
            fst (nft_flow_offload_chain indr t FLOW_BLOCK_BIND w) = - EOPNOTSUPP
            \<and> nft_indr_block_offload_cmd indr (ctx_chain t) dev FLOW_BLOCK_BIND w
              = (- EOPNOTSUPP, set_flow_block (ctx_chain t) (block_cb_list bo) (w\<lparr>hw := s\<rparr>)))
       \<and> (cb_list bo \<noteq> [] \<longrightarrow>
            nft_indr_block_offload_cmd indr (ctx_chain t) dev FLOW_BLOCK_BIND w
              = (0, set_flow_block (ctx_chain t) (cb_list bo @ block_cb_list bo) (w\<lparr>hw := s\<rparr>)))"
  using assms
  by (auto simp: nft_flow_offload_chain_def Let_def nft_indr_block_offload_cmd_def
      nft_block_setup_def nft_flow_offload_bind_def driver_returned_def set_flow_block_def)

text \<open>
  The device \<open>vxlan0\<close> has no \<^verbatim>\<open>ndo_setup_tc\<close>. With no driver-agnostic callback
  registered the bind returns \<^verbatim>\<open>-EOPNOTSUPP\<close> and the chain's list stays empty; with
  one registering itself the bind returns 0 and the chain's list holds it.
\<close>

theorem indirect_bind_needs_a_callback_witness:
  "nft_flow_offload_chain no_indr (sample_trans NFT_MSG_NEWCHAIN NFPROTO_NETDEV 0 1 NULL NF_ACCEPT)
     FLOW_BLOCK_BIND
     (sample_world empty_heap ((sample_chain 3 ''vxlan0'' [])\<lparr>ops_dev := Some sample_indr_dev\<rparr>))
   = (- EOPNOTSUPP,
      set_flow_block 1 []
        (sample_world empty_heap ((sample_chain 3 ''vxlan0'' [])\<lparr>ops_dev := Some sample_indr_dev\<rparr>)))
   \<and> nft_flow_offload_chain (sample_indr [tracing_cb 0 9])
     (sample_trans NFT_MSG_NEWCHAIN NFPROTO_NETDEV 0 1 NULL NF_ACCEPT) FLOW_BLOCK_BIND
     (sample_world empty_heap ((sample_chain 3 ''vxlan0'' [])\<lparr>ops_dev := Some sample_indr_dev\<rparr>))
   = (0,
      set_flow_block 1 [tracing_cb 0 9]
        ((sample_world empty_heap ((sample_chain 3 ''vxlan0'' [])\<lparr>ops_dev := Some sample_indr_dev\<rparr>))
         \<lparr>hw := [200]\<rparr>))"
proof -
  let ?w = "sample_world empty_heap ((sample_chain 3 ''vxlan0'' [])\<lparr>ops_dev := Some sample_indr_dev\<rparr>)"
  let ?t = "sample_trans NFT_MSG_NEWCHAIN NFPROTO_NETDEV 0 1 NULL NF_ACCEPT"
  let ?bo0 = "bo_init 1 sample_indr_dev FLOW_BLOCK_BIND ?w"
  have base: "nft_is_base_chain (chains ?w (ctx_chain ?t))"
    and dev: "ops_dev (chains ?w (ctx_chain ?t)) = Some sample_indr_dev"
    and nondo: "ndo_setup_tc sample_indr_dev = None"
    and pol: "uint (trans_chain_policy ?t) = NF_ACCEPT"
    by (simp_all add: nft_is_base_chain_def sample_defs const_defs sample_indr_dev_def)
  have none: "no_indr sample_indr_dev (bo_init (ctx_chain ?t) sample_indr_dev FLOW_BLOCK_BIND ?w)
      FLOW_BLOCK_BIND (hw ?w) = (?bo0, [])"
    by (simp add: sample_defs)
  have one: "sample_indr [tracing_cb 0 9] sample_indr_dev
      (bo_init (ctx_chain ?t) sample_indr_dev FLOW_BLOCK_BIND ?w) FLOW_BLOCK_BIND (hw ?w)
      = (?bo0\<lparr>cb_list := [tracing_cb 0 9]\<rparr>, [200])"
    by (simp add: sample_defs sample_indr_def)
  have a: "nft_flow_offload_chain no_indr ?t FLOW_BLOCK_BIND ?w
      = (- EOPNOTSUPP, set_flow_block (ctx_chain ?t) (block_cb_list ?bo0) (?w\<lparr>hw := []\<rparr>))"
    using indirect_bind_needs_a_callback
      [where indr = no_indr and w = ?w and t = ?t and dev = sample_indr_dev and bo = ?bo0
         and s = "[]", OF base dev nondo none] pol
    by (simp add: bo_init_def)
  have b: "nft_flow_offload_chain (sample_indr [tracing_cb 0 9]) ?t FLOW_BLOCK_BIND ?w
      = (0, set_flow_block (ctx_chain ?t)
           (cb_list (?bo0\<lparr>cb_list := [tracing_cb 0 9]\<rparr>)
            @ block_cb_list (?bo0\<lparr>cb_list := [tracing_cb 0 9]\<rparr>)) (?w\<lparr>hw := [200]\<rparr>))"
    using indirect_bind_needs_a_callback
      [where indr = "sample_indr [tracing_cb 0 9]" and w = ?w and t = ?t
         and dev = sample_indr_dev and bo = "?bo0\<lparr>cb_list := [tracing_cb 0 9]\<rparr>"
         and s = "[200]", OF base dev nondo one] pol
    by simp
  from a b show ?thesis
    by (simp add: bo_init_def sample_defs)
qed

subsection \<open>The flow rule compiler\<close>

lemma count_actions_filter:
  "\<forall>e \<in> set es. ops e \<noteq> None \<Longrightarrow>
   count_actions es n = n + of_nat (length (filter action_bearing es))"
  by (induction es arbitrary: n) (auto simp: action_bearing_def)

lemma offloadable_ops: "offloadable e \<Longrightarrow> ops e \<noteq> None"
  by (auto simp: offloadable_def split: option.splits)

lemma offload_exprs_succeeds:
  "\<forall>e \<in> set es. offloadable e \<Longrightarrow> calls_succeed es ctx fl \<Longrightarrow>
   \<exists>ctx' m a. offload_exprs es ctx fl = Inr (ctx', m, a) \<and> num_entries a = num_entries (snd fl)"
proof (induction es arbitrary: ctx fl)
  case Nil
  then show ?case by (cases fl) simp
next
  case (Cons e es)
  from Cons.prems(1) obtain o' f where o': "ops e = Some o'" and f: "offload o' = Some f"
    by (auto simp: offloadable_def split: option.splits)
  obtain err ctx1 m1 ents where r: "f ctx fl (data e) = (err, ctx1, m1, ents)"
    by (cases "f ctx fl (data e)") auto
  from Cons.prems(2) o' f r have ok: "0 \<le> err"
    and rest: "calls_succeed es ctx1 (m1, (snd fl)\<lparr>entries := ents\<rparr>)"
    by auto
  from Cons.IH [OF _ rest] Cons.prems(1)
  obtain ctx' m a where "offload_exprs es ctx1 (m1, (snd fl)\<lparr>entries := ents\<rparr>) = Inr (ctx', m, a)"
    and "num_entries a = num_entries (snd fl)"
    by auto
  with o' f r ok show ?case by auto
qed

lemma offload_exprs_unsupported:
  "\<forall>x \<in> set pre. offloadable x \<Longrightarrow> ops e = Some o' \<Longrightarrow> offload o' = None \<Longrightarrow>
   \<exists>err. offload_exprs (pre @ e # post) ctx fl = Inl err \<and> err < 0
     \<and> (calls_succeed pre ctx fl \<longrightarrow> err = - EOPNOTSUPP)"
proof (induction pre arbitrary: ctx fl)
  case Nil
  then show ?case by (simp add: EOPNOTSUPP_def)
next
  case (Cons x xs)
  from Cons.prems(1) obtain ox f where ox: "ops x = Some ox" and f: "offload ox = Some f"
    by (auto simp: offloadable_def split: option.splits)
  obtain err ctx1 m1 ents where r: "f ctx fl (data x) = (err, ctx1, m1, ents)"
    by (cases "f ctx fl (data x)") auto
  show ?case
  proof (cases "err < 0")
    case True
    with ox f r show ?thesis by auto
  next
    case False
    from Cons.IH [OF _ Cons.prems(2,3), of ctx1 "(m1, (snd fl)\<lparr>entries := ents\<rparr>)"] Cons.prems(1)
    obtain err' where "offload_exprs (xs @ e # post) ctx1 (m1, (snd fl)\<lparr>entries := ents\<rparr>) = Inl err'"
      "err' < 0"
      "calls_succeed xs ctx1 (m1, (snd fl)\<lparr>entries := ents\<rparr>) \<longrightarrow> err' = - EOPNOTSUPP"
      by auto
    with ox f r False show ?thesis by auto
  qed
qed

lemma offload_exprs_Inl_neg: "offload_exprs es ctx fl = Inl err \<Longrightarrow> err < 0"
  by (induction es arbitrary: ctx fl)
     (auto simp: EOPNOTSUPP_def split: option.splits prod.splits if_splits)

text \<open>What \<^verbatim>\<open>nft_flow_rule_alloc\<close> returns, by the outcomes of its two allocations.\<close>

lemma nft_flow_rule_alloc_ok:
  assumes "alloc_succeeds h"
  shows "nft_flow_rule_alloc n h =
     Some (Suc (brk h),
       h\<lparr>objs := (objs h)
            (Suc (brk h) \<mapsto> Obj_nft_flow_rule (zero_nft_flow_rule\<lparr>rule := Suc (Suc (brk h))\<rparr>),
             Suc (Suc (brk h)) \<mapsto> Obj_flow_rule
               \<lparr>match = \<lparr>fm_dissector = Dissector_of (Suc (brk h)), fm_mask = Mask_of (Suc (brk h)),
                          fm_key = Key_of (Suc (brk h))\<rparr>,
                action = snd (fresh_flow n)\<rparr>),
          brk := Suc (Suc (brk h)), gfp := drop 2 (gfp h)\<rparr>)"
proof -
  from assms obtain rest where g: "gfp h = True # True # rest"
    by (cases "gfp h"; cases "tl (gfp h)") (auto simp: alloc_succeeds_def)
  show ?thesis
    by (simp add: nft_flow_rule_alloc_def kzalloc_def flow_rule_alloc_def g NULL_def
        read_nft_flow_rule_def read_flow_rule_def fresh_flow_def fun_upd_twist)
qed

lemma nft_flow_rule_alloc_fails:
  assumes "\<not> alloc_succeeds h" "heap_wf h"
  shows "\<exists>h'. nft_flow_rule_alloc n h = Some (NULL, h') \<and> objs h' = objs h"
proof -
  have fresh: "objs h (Suc (brk h)) = None"
    using assms(2) by (auto simp: heap_wf_def dom_def)
  consider "gfp h = []" | rest where "gfp h = False # rest" | "gfp h = [True]"
    | rest where "gfp h = True # False # rest"
    using assms(1) by (cases "gfp h"; cases "tl (gfp h)") (auto simp: alloc_succeeds_def)
  then show ?thesis
  proof cases
    case 1
    then show ?thesis by (simp add: nft_flow_rule_alloc_def kzalloc_def)
  next
    case 2
    then show ?thesis by (simp add: nft_flow_rule_alloc_def kzalloc_def)
  next
    case 3
    then show ?thesis
      using fresh
      by (auto simp: nft_flow_rule_alloc_def kzalloc_def flow_rule_alloc_def NULL_def kfree_def)
  next
    case 4
    then show ?thesis
      using fresh
      by (auto simp: nft_flow_rule_alloc_def kzalloc_def flow_rule_alloc_def NULL_def kfree_def)
  qed
qed


lemma nft_flow_rule_create_no_memory:
  assumes "\<not> alloc_succeeds h" "heap_wf h"
  shows "\<exists>h'. nft_flow_rule_create es h = Some (Inl (- ENOMEM), h') \<and> objs h' = objs h"
  using nft_flow_rule_alloc_fails [OF assms, of "count_actions es 0"]
  by (auto simp: nft_flow_rule_create_def)

lemma nft_flow_rule_create_error:
  assumes "alloc_succeeds h"
    and "offload_exprs es ctx_init (fresh_flow (count_actions es 0)) = Inl err"
  shows "\<exists>h'. nft_flow_rule_create es h = Some (Inl err, h')
           \<and> objs h' = (objs h)(Suc (brk h) := None, Suc (Suc (brk h)) := None)"
  using assms(2)
  by (auto simp: nft_flow_rule_create_def nft_flow_rule_alloc_ok [OF assms(1)] NULL_def
      read_nft_flow_rule_def read_flow_rule_def zero_nft_flow_rule_def fresh_flow_def
      nft_flow_rule_destroy_def kfree_def fun_upd_twist)

lemma nft_flow_rule_create_flow:
  assumes "alloc_succeeds h"
    and "offload_exprs es ctx_init (fresh_flow (count_actions es 0)) = Inr (ctx, m, a)"
  shows "\<exists>h'. nft_flow_rule_create es h = Some (Inr (Suc (brk h)), h')
           \<and> read_nft_flow_rule h' (Suc (brk h))
               = Some \<lparr>proto = l3num (dep ctx), flow_match = m, rule = Suc (Suc (brk h))\<rparr>
           \<and> read_flow_rule h' (Suc (Suc (brk h)))
               = Some \<lparr>match = \<lparr>fm_dissector = Dissector_of (Suc (brk h)),
                                 fm_mask = Mask_of (Suc (brk h)), fm_key = Key_of (Suc (brk h))\<rparr>,
                       action = a\<rparr>
           \<and> (\<forall>x. x \<noteq> Suc (brk h) \<and> x \<noteq> Suc (Suc (brk h)) \<longrightarrow> objs h' x = objs h x)"
  using assms(2)
  by (auto simp: nft_flow_rule_create_def nft_flow_rule_alloc_ok [OF assms(1)] NULL_def
      read_nft_flow_rule_def read_flow_rule_def zero_nft_flow_rule_def fresh_flow_def)

lemma heap_wf_fresh:
  "heap_wf h \<Longrightarrow> (objs h)(Suc (brk h) := None, Suc (Suc (brk h)) := None) = objs h"
proof -
  assume wf: "heap_wf h"
  have "objs h (Suc (brk h)) = None" "objs h (Suc (Suc (brk h))) = None"
    using wf by (force simp: heap_wf_def dom_def)+
  then show ?thesis by (auto simp: fun_eq_iff)
qed

text \<open>Well-formedness of the heap is kept by allocation and by freeing.\<close>

lemma heap_wf_kzalloc: "heap_wf h \<Longrightarrow> kzalloc z h = (p, h') \<Longrightarrow> heap_wf h'"
  by (auto simp: heap_wf_def kzalloc_def split: list.splits if_splits) force

lemma heap_wf_kfree: "heap_wf h \<Longrightarrow> kfree p h = Some h' \<Longrightarrow> heap_wf h'"
  by (auto simp: heap_wf_def kfree_def split: if_splits)

lemma heap_wf_empty_heap: "heap_wf empty_heap"
  by (simp add: heap_wf_def empty_heap_def)

text \<open>
  Claim C1, as amended. When both allocations find memory, every expression of the
  rule has an \<^verbatim>\<open>offload\<close> entry point, and every call of one, made in the rule's
  order from the zeroed context and the freshly allocated flow rule, returns a result
  that is not negative, then \<^verbatim>\<open>nft_flow_rule_create\<close> returns a flow rule whose
  \<^verbatim>\<open>flow_rule\<close> is live and whose action list has for capacity the number of
  expressions that carry \<^verbatim>\<open>NFT_OFFLOAD_F_ACTION\<close> (as a 32-bit value; the number
  itself below \<open>2\<^sup>3\<^sup>2\<close>).
\<close>

theorem compile_offloadable_rule:
  assumes alloc: "alloc_succeeds h"
    and offl: "\<forall>e \<in> set es. offloadable e"
    and calls: "calls_succeed es ctx_init
                  (fresh_flow (of_nat (length (filter action_bearing es))))"
  shows "\<exists>flow f r h'.
           nft_flow_rule_create es h = Some (Inr flow, h')
           \<and> read_nft_flow_rule h' flow = Some f
           \<and> read_flow_rule h' (rule f) = Some r
           \<and> num_entries (action r) = of_nat (length (filter action_bearing es))
           \<and> (length (filter action_bearing es) < 2 ^ 32 \<longrightarrow>
                unat (num_entries (action r)) = length (filter action_bearing es))"
proof -
  let ?n = "length (filter action_bearing es)"
  have cnt: "count_actions es 0 = of_nat ?n"
    using count_actions_filter [of es 0] offl offloadable_ops by auto
  from offload_exprs_succeeds [OF offl calls]
  obtain ctx m a where run: "offload_exprs es ctx_init (fresh_flow (of_nat ?n)) = Inr (ctx, m, a)"
    and cap: "num_entries a = of_nat ?n"
    by (auto simp: fresh_flow_def)
  from nft_flow_rule_create_flow [OF alloc run [folded cnt]]
  obtain h' where c: "nft_flow_rule_create es h = Some (Inr (Suc (brk h)), h')"
    and f: "read_nft_flow_rule h' (Suc (brk h))
               = Some \<lparr>proto = l3num (dep ctx), flow_match = m, rule = Suc (Suc (brk h))\<rparr>"
    and r: "read_flow_rule h' (Suc (Suc (brk h)))
               = Some \<lparr>match = \<lparr>fm_dissector = Dissector_of (Suc (brk h)),
                                 fm_mask = Mask_of (Suc (brk h)), fm_key = Key_of (Suc (brk h))\<rparr>,
                       action = a\<rparr>"
    by blast
  have "?n < 2 ^ 32 \<longrightarrow> unat (of_nat ?n :: u32) = ?n"
    by (simp add: unsigned_of_nat take_bit_nat_eq_self_iff)
  with c f r cap show ?thesis
    by (intro exI [of _ "Suc (brk h)"] exI [of _ h']
        exI [of _ "\<lparr>proto = l3num (dep ctx), flow_match = m, rule = Suc (Suc (brk h))\<rparr>"]
        exI [of _ "\<lparr>match = \<lparr>fm_dissector = Dissector_of (Suc (brk h)),
                                 fm_mask = Mask_of (Suc (brk h)), fm_key = Key_of (Suc (brk h))\<rparr>,
                       action = a\<rparr>"]) simp
qed

text \<open>
  Claim C2, as amended. A rule in which an expression without an \<^verbatim>\<open>offload\<close> entry
  point stands behind expressions that all have one, compiled on a well-formed heap:
  \<^verbatim>\<open>nft_flow_rule_create\<close> returns an error, never a flow rule, and the live objects
  of the heap are those from before the call. The error is \<^verbatim>\<open>-EOPNOTSUPP\<close> when both
  allocations find memory and the calls for the expressions ahead all succeed. And
  whatever the rule, when \<^verbatim>\<open>nft_flow_rule_create\<close> returns an error the live objects
  are those from before the call: nothing of the partial flow rule is kept.
\<close>

theorem compile_unsupported_expression:
  assumes wf: "heap_wf h"
    and pre: "\<forall>x \<in> set pre. offloadable x"
    and e: "ops e = Some o'" "offload o' = None"
  shows "(\<exists>err h'. nft_flow_rule_create (pre @ e # post) h = Some (Inl err, h')
            \<and> err < 0 \<and> objs h' = objs h)
       \<and> (alloc_succeeds h
           \<and> calls_succeed pre ctx_init (fresh_flow (count_actions (pre @ e # post) 0)) \<longrightarrow>
            (\<exists>h'. nft_flow_rule_create (pre @ e # post) h = Some (Inl (- EOPNOTSUPP), h')
               \<and> objs h' = objs h))
       \<and> (nft_flow_rule_create es h = Some (Inl err0, h0) \<longrightarrow> objs h0 = objs h)"
proof -
  let ?es = "pre @ e # post"
  from offload_exprs_unsupported [OF pre e, of post ctx_init "fresh_flow (count_actions ?es 0)"]
  obtain err where run: "offload_exprs ?es ctx_init (fresh_flow (count_actions ?es 0)) = Inl err"
    and neg: "err < 0"
    and uns: "calls_succeed pre ctx_init (fresh_flow (count_actions ?es 0)) \<longrightarrow> err = - EOPNOTSUPP"
    by blast
  have a: "\<exists>err h'. nft_flow_rule_create ?es h = Some (Inl err, h') \<and> err < 0 \<and> objs h' = objs h"
  proof (cases "alloc_succeeds h")
    case True
    from nft_flow_rule_create_error [OF True run] neg heap_wf_fresh [OF wf]
    show ?thesis by auto
  next
    case False
    from nft_flow_rule_create_no_memory [OF False wf, of ?es]
    show ?thesis by (auto simp: ENOMEM_def)
  qed
  have b: "\<exists>h'. nft_flow_rule_create ?es h = Some (Inl (- EOPNOTSUPP), h') \<and> objs h' = objs h"
    if "alloc_succeeds h" "calls_succeed pre ctx_init (fresh_flow (count_actions ?es 0))"
    using nft_flow_rule_create_error [OF that(1) run] uns that(2) heap_wf_fresh [OF wf]
    by auto
  have c: "objs h0 = objs h" if r: "nft_flow_rule_create es h = Some (Inl err0, h0)"
  proof (cases "alloc_succeeds h")
    case True
    show ?thesis
    proof (cases "offload_exprs es ctx_init (fresh_flow (count_actions es 0))")
      case (Inl x)
      from nft_flow_rule_create_error [OF True Inl] r heap_wf_fresh [OF wf]
      show ?thesis by auto
    next
      case (Inr y)
      obtain ctx m a where "y = (ctx, m, a)" by (cases y) auto
      with nft_flow_rule_create_flow [OF True Inr [unfolded this]] r
      show ?thesis by auto
    qed
  next
    case False
    from nft_flow_rule_create_no_memory [OF False wf, of es] r
    show ?thesis by auto
  qed
  from a b c show ?thesis by blast
qed


lemmas compile_sample_defs =
  sample_expr_def sample_expr_no_offload_def offloadable_def action_bearing_def
  NFT_OFFLOAD_F_ACTION_def fresh_flow_def alloc_succeeds_def heap_wf_def empty_heap_def

text \<open>
  Three expressions that compile, two of them action-bearing: the capacity is 2.
\<close>

theorem compile_offloadable_rule_witness:
  "\<exists>flow f r h'.
     nft_flow_rule_create [sample_expr 1 0, sample_expr 0 0, sample_expr 1 7]
       (empty_heap\<lparr>gfp := [True, True]\<rparr>) = Some (Inr flow, h')
     \<and> read_nft_flow_rule h' flow = Some f
     \<and> read_flow_rule h' (rule f) = Some r
     \<and> num_entries (action r) = 2 \<and> unat (num_entries (action r)) = 2"
proof -
  let ?es = "[sample_expr 1 0, sample_expr 0 0, sample_expr 1 7]"
  let ?h = "empty_heap\<lparr>gfp := [True, True]\<rparr>"
  have n: "length (filter action_bearing ?es) = 2"
    by (simp add: compile_sample_defs)
  have alloc: "alloc_succeeds ?h"
    by (simp add: compile_sample_defs)
  have offl: "\<forall>e \<in> set ?es. offloadable e"
    by (simp add: compile_sample_defs)
  have calls: "calls_succeed ?es ctx_init (fresh_flow (of_nat (length (filter action_bearing ?es))))"
    unfolding n by (simp add: compile_sample_defs)
  from compile_offloadable_rule [OF alloc offl calls] show ?thesis
    unfolding n by simp
qed

text \<open>
  Claim C1 as stated fails when no memory is found: the one expression of the rule
  declares the capability and no call of it fails, and \<^verbatim>\<open>nft_flow_rule_create\<close> returns
  \<^verbatim>\<open>ERR_PTR(-ENOMEM)\<close>.
\<close>

theorem compile_offloadable_rule_counterexample:
  "offloadable (sample_expr 1 0)
   \<and> calls_succeed [sample_expr 1 0] ctx_init (fresh_flow 1)
   \<and> nft_flow_rule_create [sample_expr 1 0] empty_heap = Some (Inl (- ENOMEM), empty_heap)"
  by (simp add: compile_sample_defs nft_flow_rule_create_def nft_flow_rule_alloc_def kzalloc_def)

text \<open>
  An expression without the entry point between two that compile: \<^verbatim>\<open>-EOPNOTSUPP\<close>,
  and the heap holds what it held.
\<close>

theorem compile_unsupported_expression_witness:
  "\<exists>h'. nft_flow_rule_create [sample_expr 1 0, sample_expr_no_offload, sample_expr 0 0]
       (empty_heap\<lparr>gfp := [True, True]\<rparr>) = Some (Inl (- EOPNOTSUPP), h')
     \<and> objs h' = objs (empty_heap\<lparr>gfp := [True, True]\<rparr>)"
proof -
  let ?h = "empty_heap\<lparr>gfp := [True, True]\<rparr>"
  have wf: "heap_wf ?h" and alloc: "alloc_succeeds ?h"
    by (simp_all add: compile_sample_defs)
  have pre: "\<forall>x \<in> set [sample_expr 1 0]. offloadable x"
    by (simp add: compile_sample_defs)
  have e: "ops sample_expr_no_offload = Some \<lparr>offload_flags = 0, offload = None\<rparr>"
    "offload \<lparr>offload_flags = 0, offload = None\<rparr> = None"
    by (simp_all add: compile_sample_defs)
  have calls: "calls_succeed [sample_expr 1 0] ctx_init
      (fresh_flow (count_actions ([sample_expr 1 0] @ sample_expr_no_offload # [sample_expr 0 0]) 0))"
    by (simp add: compile_sample_defs)
  from compile_unsupported_expression
    [OF wf pre e, where post = "[sample_expr 0 0]", THEN conjunct2, THEN conjunct1] alloc calls
  show ?thesis by simp
qed

text \<open>
  Claim C2 as stated fails in two ways. Without memory, the rule made of one expression
  that has no entry point gets \<^verbatim>\<open>-ENOMEM\<close>. With memory, when the expression ahead of
  it fails with \<open>-22\<close>, that is the error returned. Neither is \<^verbatim>\<open>-EOPNOTSUPP\<close>.
\<close>

theorem compile_unsupported_expression_counterexample:
  "\<not> offloadable sample_expr_no_offload
   \<and> nft_flow_rule_create [sample_expr_no_offload] empty_heap = Some (Inl (- ENOMEM), empty_heap)
   \<and> - ENOMEM \<noteq> - EOPNOTSUPP
   \<and> map_option fst
       (nft_flow_rule_create [sample_expr 0 (- 22), sample_expr_no_offload]
          (empty_heap\<lparr>gfp := [True, True]\<rparr>)) = Some (Inl (- 22))
   \<and> - 22 \<noteq> - EOPNOTSUPP"
  by (simp add: compile_sample_defs nft_flow_rule_create_def nft_flow_rule_alloc_def kzalloc_def
      flow_rule_alloc_def NULL_def read_nft_flow_rule_def read_flow_rule_def
      zero_nft_flow_rule_def nft_flow_rule_destroy_def kfree_def ENOMEM_def EOPNOTSUPP_def)

subsection \<open>Late join\<close>

lemmas late_join_defs =
  nft_indr_block_get_and_ing_cmd_def nft_indr_block_ing_cmd_def strncmp_eq_def IFNAMSIZ_def
  sample_late_cb_def sample_netns_def

lemma ing_cmd_chains_first_match:
  assumes "\<forall>x \<in> set pre. \<not> (nft_is_base_chain (chains w x)
             \<and> strncmp_eq (dev_name (chains w x)) (name dev) IFNAMSIZ)"
    and "nft_is_base_chain (chains w c)"
    and "strncmp_eq (dev_name (chains w c)) (name dev) IFNAMSIZ"
  shows "ing_cmd_chains dev f priv cmd (pre @ c # post) w
    = Some (nft_indr_block_ing_cmd dev c f priv cmd w)"
  using assms by (induction pre) auto

lemma nft_indr_block_ing_cmd_bind:
  assumes "c \<noteq> NULL"
    and "f (name dev) priv TC_SETUP_BLOCK (bo_init c dev FLOW_BLOCK_BIND w) (hw w) = (bo, s)"
  shows "nft_indr_block_ing_cmd dev c f priv FLOW_BLOCK_BIND w
    = set_flow_block c (cb_list bo @ block_cb_list bo) (w\<lparr>hw := s\<rparr>)"
  using assms
  by (simp add: nft_indr_block_ing_cmd_def nft_block_setup_def nft_flow_offload_bind_def
      driver_returned_def set_flow_block_def)

text \<open>
  Claim C7, at an input where the code departs from it. The device-family table holds
  two base chains on \<open>eth0\<close>: the chain at address 1 without
  \<^verbatim>\<open>NFT_CHAIN_HW_OFFLOAD\<close>, then the chain at address 2 with it. The late-join path
  stops at the first base chain whose device name matches and never reads the flag: the
  new callback is bound to the chain that is not offload-enabled, in front of the
  callback that chain had, and the offload-enabled chain is left as it was. The
  callback ran once.
\<close>

theorem late_join_ignores_offload_flag:
  "\<not> hw_offload_chain (sample_trans NFT_MSG_NEWCHAIN NFPROTO_NETDEV 0 1 NULL 0)
       ((sample_world empty_heap (sample_chain 0 [] []))
          \<lparr>chains := (\<lambda>_. sample_chain 0 [] [])
             (1 := sample_chain 1 ''eth0'' [tracing_cb 0 8],
              2 := sample_chain 3 ''eth0'' [tracing_cb 0 9])\<rparr>)
   \<and> hw_offload_chain (sample_trans NFT_MSG_NEWCHAIN NFPROTO_NETDEV 0 2 NULL 0)
       ((sample_world empty_heap (sample_chain 0 [] []))
          \<lparr>chains := (\<lambda>_. sample_chain 0 [] [])
             (1 := sample_chain 1 ''eth0'' [tracing_cb 0 8],
              2 := sample_chain 3 ''eth0'' [tracing_cb 0 9])\<rparr>)
   \<and> nft_indr_block_get_and_ing_cmd sample_netns (sample_dev 0 []) sample_late_cb 77
       FLOW_BLOCK_BIND
       ((sample_world empty_heap (sample_chain 0 [] []))
          \<lparr>chains := (\<lambda>_. sample_chain 0 [] [])
             (1 := sample_chain 1 ''eth0'' [tracing_cb 0 8],
              2 := sample_chain 3 ''eth0'' [tracing_cb 0 9])\<rparr>)
     = (sample_world empty_heap (sample_chain 0 [] []))
          \<lparr>chains := (\<lambda>_. sample_chain 0 [] [])
             (1 := sample_chain 1 ''eth0'' [tracing_cb 0 77, tracing_cb 0 8],
              2 := sample_chain 3 ''eth0'' [tracing_cb 0 9]),
           hw := [300]\<rparr>"
  by (simp add: late_join_defs commit_defs sample_defs const_defs fun_upd_twist)

end
